theory Spec2Isabelle
  imports Main "HOL-Library.AList"
begin

section \<open>JavaScript values used by the application\<close>

text \<open>
  The payloads that travel through the cache and the request layer are whatever
  \<^verbatim>\<open>response.json()\<close> produced, that is JSON values. Numbers are restricted to
  integers (the application never computes with fractions; a JavaScript number holds every
  integer of magnitude up to \<open>2\<^sup>5\<^sup>3\<close> exactly), and an object is the list of its members
  in the order of the text, each name occurring once.
\<close>

datatype json =
    JNull
  | JBool bool
  | JNum int
  | JStr string
  | JArr "json list"
  | JObj "(string \<times> json) list"

text \<open>JavaScript truthiness, as tested by \<^verbatim>\<open>if (cached)\<close>, \<^verbatim>\<open>!data.Search\<close>, \<^verbatim>\<open>a || b\<close>.\<close>

fun truthy :: "json \<Rightarrow> bool" where
  "truthy JNull = False"
| "truthy (JBool b) = b"
| "truthy (JNum n) = (n \<noteq> 0)"
| "truthy (JStr s) = (s \<noteq> [])"
| "truthy (JArr xs) = True"
| "truthy (JObj ms) = True"

text \<open>
  Reading a property \<^verbatim>\<open>v.name\<close> of a value that is not \<^verbatim>\<open>null\<close>: \<open>None\<close> is
  \<^verbatim>\<open>undefined\<close>. Only objects carry the properties the application reads (\<^verbatim>\<open>Response\<close>,
  \<^verbatim>\<open>Error\<close>, \<^verbatim>\<open>Search\<close>, \<^verbatim>\<open>imdbID\<close>, \<^verbatim>\<open>totalResults\<close>). Reading a property of
  \<^verbatim>\<open>null\<close> throws; the callers below test for \<open>JNull\<close> before they use \<open>field\<close>.
\<close>

fun field :: "json \<Rightarrow> string \<Rightarrow> json option" where
  "field (JObj ms) name = map_of ms name"
| "field v name = None"

definition truthy_opt :: "json option \<Rightarrow> bool" where
  "truthy_opt v = (case v of None \<Rightarrow> False | Some x \<Rightarrow> truthy x)"

text \<open>Thrown values: every one the application sees has a \<^verbatim>\<open>name\<close> and a \<^verbatim>\<open>message\<close>.\<close>

datatype js_error = JsError (name: string) (message: string)

text \<open>\<^verbatim>\<open>new Error(msg)\<close>: a plain error, whose name is \<^verbatim>\<open>Error\<close>.\<close>

definition Error :: "string \<Rightarrow> js_error" where
  "Error msg = JsError ''Error'' msg"

subsection \<open>Strings\<close>

text \<open>
  A string is the list of its code units, here those below 256: the ASCII characters and
  the accented letters of Latin-1, written by their code where they occur in a message
  (\<open>0xE3\<close> is a-tilde, \<open>0xE1\<close> a-acute, \<open>0xE7\<close> c-cedilla, \<open>0xED\<close> i-acute).
  \<open>is_space\<close> lists the code units that \<^verbatim>\<open>String.prototype.trim\<close> removes, and
  \<open>lower_char\<close> pairs each capital letter with its small letter, as
  \<^verbatim>\<open>String.prototype.toLowerCase\<close> does.
\<close>

definition is_space :: "char \<Rightarrow> bool" where
  "is_space c =
     (c \<in> set [CHR '' '', CHR 0x09, CHR 0x0A, CHR 0x0B, CHR 0x0C, CHR 0x0D, CHR 0xA0])"

definition trim :: "string \<Rightarrow> string" where
  "trim s = rev (dropWhile is_space (rev (dropWhile is_space s)))"

definition capital_letters :: string where
  "capital_letters =
     ''ABCDEFGHIJKLMNOPQRSTUVWXYZ'' @
     [CHR 0xC0, CHR 0xC1, CHR 0xC2, CHR 0xC3, CHR 0xC4, CHR 0xC5, CHR 0xC6, CHR 0xC7,
      CHR 0xC8, CHR 0xC9, CHR 0xCA, CHR 0xCB, CHR 0xCC, CHR 0xCD, CHR 0xCE, CHR 0xCF,
      CHR 0xD0, CHR 0xD1, CHR 0xD2, CHR 0xD3, CHR 0xD4, CHR 0xD5, CHR 0xD6, CHR 0xD8,
      CHR 0xD9, CHR 0xDA, CHR 0xDB, CHR 0xDC, CHR 0xDD, CHR 0xDE]"

definition small_letters :: string where
  "small_letters =
     ''abcdefghijklmnopqrstuvwxyz'' @
     [CHR 0xE0, CHR 0xE1, CHR 0xE2, CHR 0xE3, CHR 0xE4, CHR 0xE5, CHR 0xE6, CHR 0xE7,
      CHR 0xE8, CHR 0xE9, CHR 0xEA, CHR 0xEB, CHR 0xEC, CHR 0xED, CHR 0xEE, CHR 0xEF,
      CHR 0xF0, CHR 0xF1, CHR 0xF2, CHR 0xF3, CHR 0xF4, CHR 0xF5, CHR 0xF6, CHR 0xF8,
      CHR 0xF9, CHR 0xFA, CHR 0xFB, CHR 0xFC, CHR 0xFD, CHR 0xFE]"

definition lower_char :: "char \<Rightarrow> char" where
  "lower_char c =
     (case map_of (zip capital_letters small_letters) c of
        None \<Rightarrow> c
      | Some l \<Rightarrow> l)"

definition toLowerCase :: "string \<Rightarrow> string" where
  "toLowerCase s = map lower_char s"

definition startsWith :: "string \<Rightarrow> string \<Rightarrow> bool" where
  "startsWith s p = (take (length p) s = p)"

fun str_includes :: "string \<Rightarrow> string \<Rightarrow> bool" where
  "str_includes [] p = (p = [])"
| "str_includes (c # cs) p = (startsWith (c # cs) p \<or> str_includes cs p)"

text \<open>Decimal text of a number, as a template literal \<^verbatim>\<open>${page}\<close> writes it.\<close>

definition digit_char :: "nat \<Rightarrow> char" where
  "digit_char d = ''0123456789'' ! d"

fun show_nat :: "nat \<Rightarrow> string" where
  "show_nat n = (if n < 10 then [digit_char n] else show_nat (n div 10) @ [digit_char (n mod 10)])"

declare show_nat.simps [simp del]

definition show_int :: "int \<Rightarrow> string" where
  "show_int i = (if i < 0 then CHR ''-'' # show_nat (nat (- i)) else show_nat (nat i))"

text \<open>
  \<^verbatim>\<open>String(v)\<close>, which \<^verbatim>\<open>new Error(v)\<close> applies to its argument: an array is its
  elements joined by commas, \<^verbatim>\<open>null\<close> elements left empty.
\<close>

fun join_comma :: "string list \<Rightarrow> string" where
  "join_comma [] = []"
| "join_comma [x] = x"
| "join_comma (x # y # zs) = x @ '','' @ join_comma (y # zs)"

fun to_str :: "json \<Rightarrow> string" where
  "to_str JNull = ''null''"
| "to_str (JBool b) = (if b then ''true'' else ''false'')"
| "to_str (JNum n) = show_int n"
| "to_str (JStr s) = s"
| "to_str (JArr xs) = join_comma (map (\<lambda>x. if x = JNull then [] else to_str x) xs)"
| "to_str (JObj ms) = ''[object Object]''"

section \<open>config.js\<close>

definition SEARCH_TIMEOUT :: nat where
  "SEARCH_TIMEOUT = 8000"

definition SKELETON_CARDS_COUNT :: nat where
  "SKELETON_CARDS_COUNT = 6"

text \<open>The placeholder that \<^verbatim>\<open>config.js\<close> ships in \<^verbatim>\<open>OMDB_API_KEY\<close>.\<close>

definition API_KEY_PLACEHOLDER :: string where
  "API_KEY_PLACEHOLDER = ''YOUR_API_KEY_HERE''"

section \<open>utils.js\<close>

text \<open>
  \<^verbatim>\<open>isValidAPIKey(apiKey)\<close> is \<^verbatim>\<open>apiKey && apiKey.length > 5 && apiKey !== 'YOUR_API_KEY_HERE'\<close>.
  The deployed key is injected at build time, so it is a parameter here; \<open>None\<close> is a key
  that is missing (\<^verbatim>\<open>undefined\<close> or \<^verbatim>\<open>null\<close>).
\<close>

definition isValidAPIKey :: "string option \<Rightarrow> bool" where
  "isValidAPIKey apiKey =
     (case apiKey of
        None \<Rightarrow> False
      | Some k \<Rightarrow> k \<noteq> [] \<and> length k > 5 \<and> k \<noteq> API_KEY_PLACEHOLDER)"

definition msg_cancelled_by_user :: string where
  "msg_cancelled_by_user = ''Busca cancelada pelo usu'' @ [CHR 0xE1] @ ''rio.''"

definition msg_connection :: string where
  "msg_connection =
     ''Erro de conex'' @ [CHR 0xE3] @ ''o. Verifique sua internet e tente novamente.''"

definition msg_unknown :: string where
  "msg_unknown = ''Erro desconhecido. Tente novamente.''"

text \<open>
  \<open>getErrorMessage\<close> on a thrown error (its first branch, for an argument that is a
  string, is never taken by the callers here).
\<close>

definition getErrorMessage :: "js_error \<Rightarrow> string" where
  "getErrorMessage error =
     (if name error = ''AbortError'' then msg_cancelled_by_user
      else if str_includes (message error) ''Failed to fetch'' then msg_connection
      else if message error \<noteq> [] then message error
      else msg_unknown)"

section \<open>api.js: the two cache tiers\<close>

text \<open>
  What a \<^verbatim>\<open>localStorage\<close> slot holds: the text that \<open>setCache\<close> wrote, which parses back
  to the payload and the time it was stored; the empty text; or a text that
  \<^verbatim>\<open>JSON.parse\<close> rejects. Other texts are never written under this application's keys;
  a slot of another application is never read, so any of the three can stand for its text.
\<close>

datatype item =
    Entry json int
  | Blank
  | Unparsable

text \<open>A request that left for the network, with the query parameters set on its URL.\<close>

datatype request =
    SearchRequest string string int
  | DetailRequest string string

record state =
  memoryCache :: "string \<rightharpoonup> json"
  localStorage :: "(string \<times> item) list"
  console :: "string list"
  requests :: "request list"

definition CACHE_TTL :: int where
  "CACHE_TTL = 24 * 60 * 60 * 1000"

definition storageKey :: "string \<Rightarrow> string" where
  "storageKey key = ''omdb_'' @ key"

definition warn_access :: string where
  "warn_access = ''Erro ao acessar localStorage:''"

definition warn_full :: string where
  "warn_full = ''LocalStorage cheio ou indispon'' @ [CHR 0xED] @ ''vel:''"

text \<open>
  \<open>getFromCache now key\<close>, with \<open>now\<close> the value of \<^verbatim>\<open>Date.now()\<close>. The result
  \<open>JNull\<close> is the \<^verbatim>\<open>null\<close> of a miss. A text that does not parse throws inside the
  \<^verbatim>\<open>try\<close>; the handler warns and the function falls through to \<^verbatim>\<open>return null\<close>.
  Reading and removing a slot do not throw.
\<close>

definition getFromCache :: "int \<Rightarrow> string \<Rightarrow> state \<Rightarrow> json \<times> state" where
  "getFromCache now key s =
     (case memoryCache s key of
        Some v \<Rightarrow> (v, s)
      | None \<Rightarrow>
          (case map_of (localStorage s) (storageKey key) of
             None \<Rightarrow> (JNull, s)
           | Some Blank \<Rightarrow> (JNull, s)
           | Some Unparsable \<Rightarrow> (JNull, s\<lparr>console := console s @ [warn_access]\<rparr>)
           | Some (Entry data timestamp) \<Rightarrow>
               (let isExpired = (now - timestamp > CACHE_TTL)
                in if \<not> isExpired
                   then (data, s\<lparr>memoryCache := (memoryCache s)(key \<mapsto> data)\<rparr>)
                   else (JNull,
                         s\<lparr>localStorage := AList.delete (storageKey key) (localStorage s)\<rparr>))))"

text \<open>
  \<^verbatim>\<open>localStorage.setItem\<close> throws when the quota is exceeded or storage is unavailable;
  whether it does is the browser's decision, the flag \<open>full\<close>.
\<close>

definition QuotaExceededError :: js_error where
  "QuotaExceededError = JsError ''QuotaExceededError'' ''The quota has been exceeded.''"

definition setItem ::
  "bool \<Rightarrow> string \<Rightarrow> item \<Rightarrow> (string \<times> item) list \<Rightarrow> js_error + (string \<times> item) list" where
  "setItem full k v ls = (if full then Inl QuotaExceededError else Inr (AList.update k v ls))"

text \<open>
  \<open>setCache\<close> returns either the error it lets escape or the new state, so that
  "never throws" is a property to prove and not a matter of the type.
\<close>

definition setCache :: "bool \<Rightarrow> int \<Rightarrow> string \<Rightarrow> json \<Rightarrow> state \<Rightarrow> js_error + state" where
  "setCache full now key data s =
     (let s1 = s\<lparr>memoryCache := (memoryCache s)(key \<mapsto> data)\<rparr>
      in case setItem full (storageKey key) (Entry data now) (localStorage s1) of
           Inr ls \<Rightarrow> Inr (s1\<lparr>localStorage := ls\<rparr>)
         | Inl e \<Rightarrow> Inr (s1\<lparr>console := console s1 @ [warn_full]\<rparr>))"

text \<open>\<open>clearCache\<close>: the keys are listed first, then removed one by one.\<close>

definition clearCache :: "state \<Rightarrow> state" where
  "clearCache s =
     (let s1 = s\<lparr>memoryCache := Map.empty\<rparr>;
          keys = filter (\<lambda>k. startsWith k ''omdb_'') (map fst (localStorage s1))
      in s1\<lparr>localStorage := fold AList.delete keys (localStorage s1)\<rparr>)"

section \<open>api.js: requests\<close>

definition msg_api_key :: string where
  "msg_api_key = ''API key n'' @ [CHR 0xE3] @ ''o configurada. Configure em scripts/config.js''"

definition msg_empty_term :: string where
  "msg_empty_term = ''Por favor, insira um termo de busca.''"

definition msg_invalid_id :: string where
  "msg_invalid_id = ''ID IMDb inv'' @ [CHR 0xE1] @ ''lido.''"

definition msg_api_default :: string where
  "msg_api_default = ''Erro na API OMDb''"

definition msg_no_results :: string where
  "msg_no_results = ''Nenhum resultado encontrado.''"

definition msg_not_found :: string where
  "msg_not_found = ''Filme n'' @ [CHR 0xE3] @ ''o encontrado.''"

definition msg_search_cancelled :: string where
  "msg_search_cancelled = ''Busca cancelada.''"

definition msg_request_cancelled :: string where
  "msg_request_cancelled = ''Requisi'' @ [CHR 0xE7, CHR 0xE3] @ ''o cancelada.''"

text \<open>What reading \<^verbatim>\<open>data.Response\<close> throws when \<^verbatim>\<open>data\<close> is \<^verbatim>\<open>null\<close>.\<close>

definition TypeError_null :: js_error where
  "TypeError_null =
     JsError ''TypeError'' (''Cannot read properties of null (reading '' @ [CHR 0x27] @
       ''Response'' @ [CHR 0x27] @ '')'')"

definition validateAPIResponse :: "json \<Rightarrow> string \<Rightarrow> js_error + bool" where
  "validateAPIResponse data type =
     (if data = JNull then Inl TypeError_null
      else if field data ''Response'' = Some (JStr ''False'')
      then Inl (Error (case field data ''Error'' of
                         None \<Rightarrow> msg_api_default
                       | Some e \<Rightarrow> if truthy e then to_str e else msg_api_default))
      else if type = ''search'' \<and> \<not> truthy_opt (field data ''Search'')
      then Inl (Error msg_no_results)
      else if type = ''detail'' \<and> \<not> truthy_opt (field data ''imdbID'')
      then Inl (Error msg_not_found)
      else Inr True)"

subsection \<open>The network and the clock\<close>

text \<open>
  What the browser does for one call is given from outside: the time \<open>clock\<close> that
  \<^verbatim>\<open>Date.now()\<close> shows when the call starts, the number of milliseconds \<open>latency\<close> after
  which the request settles if nobody aborts it, what it settles with, and whether
  \<^verbatim>\<open>localStorage.setItem\<close> refuses the write. A response arrives whole, status and
  body together.
\<close>

datatype body =
    JsonBody json
  | NotJson string

datatype reply =
    NetworkFailure string
  | HttpResponse nat body

record world =
  clock :: int
  latency :: nat
  reply :: reply
  storage_full :: bool

text \<open>
  An \<^verbatim>\<open>AbortSignal\<close>, described by the moment it is aborted, in milliseconds after the
  start of the call; \<open>None\<close> when it never is.
\<close>

datatype abort_signal = AbortSignal (aborted_after: "nat option")

definition AbortError :: js_error where
  "AbortError = JsError ''AbortError'' ''The operation was aborted.''"

text \<open>
  \<^verbatim>\<open>fetch(url, {signal})\<close>: rejected with an \<^verbatim>\<open>AbortError\<close> when the signal is aborted
  no later than the request would settle, with a \<^verbatim>\<open>TypeError\<close> when the network fails,
  and resolved with the status and body otherwise.
\<close>

definition fetch :: "world \<Rightarrow> abort_signal \<Rightarrow> js_error + (nat \<times> body)" where
  "fetch w signal =
     (let settled = (case reply w of
                       NetworkFailure msg \<Rightarrow> Inl (JsError ''TypeError'' msg)
                     | HttpResponse status b \<Rightarrow> Inr (status, b))
      in case aborted_after signal of
           None \<Rightarrow> settled
         | Some t \<Rightarrow> if t \<le> latency w then Inl AbortError else settled)"

text \<open>\<^verbatim>\<open>response.ok\<close>: the status is in the range 200 to 299.\<close>

definition response_ok :: "nat \<Rightarrow> bool" where
  "response_ok status = (200 \<le> status \<and> status \<le> 299)"

text \<open>
  The timer \<^verbatim>\<open>setTimeout(() => { if (controller) controller.abort(); }, SEARCH_TIMEOUT)\<close>,
  cleared once \<^verbatim>\<open>fetch\<close> has resolved: the moment at which it aborts the function's own
  controller. \<open>controller\<close> tells whether the function created one.
\<close>

definition timer_abort :: "bool \<Rightarrow> nat option" where
  "timer_abort controller = (if controller then Some SEARCH_TIMEOUT else None)"

definition url_key :: "string option \<Rightarrow> string" where
  "url_key apiKey = (case apiKey of None \<Rightarrow> ''undefined'' | Some k \<Rightarrow> k)"

subsection \<open>searchMovies\<close>

text \<open>The cache key \<^verbatim>\<open>`search_${searchTerm.toLowerCase()}_${page}`\<close>.\<close>

definition searchCacheKey :: "string \<Rightarrow> int \<Rightarrow> string" where
  "searchCacheKey searchTerm page = ''search_'' @ toLowerCase searchTerm @ ''_'' @ show_int page"

text \<open>The \<^verbatim>\<open>try\<close> block of \<open>searchMovies\<close>, after the request has been noted in \<open>s\<close>.\<close>

definition searchMovies_try ::
  "string \<Rightarrow> abort_signal \<Rightarrow> world \<Rightarrow> state \<Rightarrow> js_error + (json \<times> state)" where
  "searchMovies_try cacheKey searchSignal w s =
     (case fetch w searchSignal of
        Inl e \<Rightarrow> Inl e
      | Inr (status, b) \<Rightarrow>
          if \<not> response_ok status then Inl (Error (''HTTP '' @ show_nat status))
          else (case b of
                  NotJson msg \<Rightarrow> Inl (JsError ''SyntaxError'' msg)
                | JsonBody data \<Rightarrow>
                    (case validateAPIResponse data ''search'' of
                       Inl e \<Rightarrow> Inl e
                     | Inr _ \<Rightarrow>
                         (case setCache (storage_full w) (clock w + int (latency w))
                                 cacheKey data s of
                            Inl e \<Rightarrow> Inl e
                          | Inr s' \<Rightarrow> Inr (data, s')))))"

definition searchMovies ::
  "string option \<Rightarrow> string \<Rightarrow> int \<Rightarrow> abort_signal option \<Rightarrow> world \<Rightarrow> state
     \<Rightarrow> (js_error + json) \<times> state" where
  "searchMovies apiKey searchTerm page signal w s =
     (if \<not> isValidAPIKey apiKey then (Inl (Error msg_api_key), s)
      else if searchTerm = [] \<or> length (trim searchTerm) = 0
      then (Inl (Error msg_empty_term), s)
      else
        let cacheKey = searchCacheKey searchTerm page;
            (cached, s1) = getFromCache (clock w) cacheKey s
        in if truthy cached then (Inr cached, s1)
           else
             let controller = (signal = None);
                 searchSignal = (case signal of
                                   Some sg \<Rightarrow> sg
                                 | None \<Rightarrow> AbortSignal (timer_abort controller));
                 s2 = s1\<lparr>requests := requests s1 @
                         [SearchRequest (url_key apiKey) (trim searchTerm) page]\<rparr>
             in case searchMovies_try cacheKey searchSignal w s2 of
                  Inr (data, s3) \<Rightarrow> (Inr data, s3)
                | Inl error \<Rightarrow>
                    if name error = ''AbortError''
                    then (Inl (Error msg_search_cancelled), s2)
                    else (Inl error, s2))"

subsection \<open>getMovieDetails\<close>

text \<open>The cache key \<^verbatim>\<open>`detail_${imdbID}`\<close>.\<close>

definition detailCacheKey :: "string \<Rightarrow> string" where
  "detailCacheKey imdbID = ''detail_'' @ imdbID"

definition getMovieDetails_try ::
  "string \<Rightarrow> abort_signal \<Rightarrow> world \<Rightarrow> state \<Rightarrow> js_error + (json \<times> state)" where
  "getMovieDetails_try cacheKey detailSignal w s =
     (case fetch w detailSignal of
        Inl e \<Rightarrow> Inl e
      | Inr (status, b) \<Rightarrow>
          if \<not> response_ok status then Inl (Error (''HTTP '' @ show_nat status))
          else (case b of
                  NotJson msg \<Rightarrow> Inl (JsError ''SyntaxError'' msg)
                | JsonBody data \<Rightarrow>
                    (case validateAPIResponse data ''detail'' of
                       Inl e \<Rightarrow> Inl e
                     | Inr _ \<Rightarrow>
                         (case setCache (storage_full w) (clock w + int (latency w))
                                 cacheKey data s of
                            Inl e \<Rightarrow> Inl e
                          | Inr s' \<Rightarrow> Inr (data, s')))))"

definition getMovieDetails ::
  "string option \<Rightarrow> string \<Rightarrow> abort_signal option \<Rightarrow> world \<Rightarrow> state
     \<Rightarrow> (js_error + json) \<times> state" where
  "getMovieDetails apiKey imdbID signal w s =
     (if \<not> isValidAPIKey apiKey then (Inl (Error msg_api_key), s)
      else if imdbID = [] \<or> length (trim imdbID) = 0
      then (Inl (Error msg_invalid_id), s)
      else
        let cacheKey = detailCacheKey imdbID;
            (cached, s1) = getFromCache (clock w) cacheKey s
        in if truthy cached then (Inr cached, s1)
           else
             let controller = (signal = None);
                 detailSignal = (case signal of
                                   Some sg \<Rightarrow> sg
                                 | None \<Rightarrow> AbortSignal (timer_abort controller));
                 s2 = s1\<lparr>requests := requests s1 @
                         [DetailRequest (url_key apiKey) imdbID]\<rparr>
             in case getMovieDetails_try cacheKey detailSignal w s2 of
                  Inr (data, s3) \<Rightarrow> (Inr data, s3)
                | Inl error \<Rightarrow>
                    if name error = ''AbortError''
                    then (Inl (Error msg_request_cancelled), s2)
                    else (Inl error, s2))"

section \<open>main.js: search and pagination state\<close>

text \<open>
  The rendering helpers of \<^verbatim>\<open>ui.js\<close> and the DOM are collaborators: what
  \<^verbatim>\<open>main.js\<close> asks of them is recorded, call by call, in the order of the calls.
\<close>

datatype event =
    SetResultsCount string
  | AriaLivePolite
  | RenderLoadingState nat
  | RenderErrorState string
  | RenderMovieGrid json
  | UpdateResultsCount "json option" string
  | RenderPagination int bool
  | AbortPending
  | ScrollToMain

text \<open>
  \<^verbatim>\<open>appState\<close> (the fields that searching uses), the text of the search box, the calls
  made to the collaborators, and the state of \<^verbatim>\<open>api.js\<close>. \<open>abortController\<close> tells
  whether \<^verbatim>\<open>appState.abortController\<close> holds a controller.
\<close>

record app =
  searchInput :: string
  currentSearchTerm :: string
  currentPage :: int
  totalResults :: int
  currentMovies :: json
  abortController :: bool
  events :: "event list"
  api :: state

text \<open>
  \<^verbatim>\<open>v.length\<close> of a value that is not \<^verbatim>\<open>null\<close>: the number of elements of an
  array, the number of code units of a string, the member of that name of an object;
  \<open>None\<close> is \<^verbatim>\<open>undefined\<close>.
\<close>

fun js_length :: "json \<Rightarrow> json option" where
  "js_length (JArr xs) = Some (JNum (int (length xs)))"
| "js_length (JStr s) = Some (JNum (int (length s)))"
| "js_length (JObj ms) = map_of ms ''length''"
| "js_length v = None"

text \<open>
  \<^verbatim>\<open>parseInt(v)\<close> with no radix, on a text or a number; \<open>None\<close> is \<^verbatim>\<open>NaN\<close>. Of a text
  it skips the leading white space, reads a sign, takes the prefix \<^verbatim>\<open>0x\<close> or \<^verbatim>\<open>0X\<close>
  as the mark of base sixteen, and reads the longest run of digits of the base. Any other
  value is first written as text. A number is written in full when its magnitude is below
  ten to the power 21, and from there on in exponent form, of which \<^verbatim>\<open>parseInt\<close> reads
  the first digit (taken here from the decimal expansion of the integer). The text of an
  array starts with the text of its first element, followed by a comma or by nothing. The
  texts of \<^verbatim>\<open>undefined\<close>, \<^verbatim>\<open>null\<close>, a truth value, an object and the empty array start
  with no digit.
\<close>

definition digits_of_base :: "nat \<Rightarrow> string" where
  "digits_of_base base = take base ''0123456789abcdef''"

definition is_digit :: "nat \<Rightarrow> char \<Rightarrow> bool" where
  "is_digit base c = (lower_char c \<in> set (digits_of_base base))"

definition digit_value :: "char \<Rightarrow> nat" where
  "digit_value c = length (takeWhile (\<lambda>d. d \<noteq> lower_char c) ''0123456789abcdef'')"

definition parse_digits :: "nat \<Rightarrow> string \<Rightarrow> nat" where
  "parse_digits base ds = foldl (\<lambda>n c. base * n + digit_value c) 0 ds"

definition parseInt_text :: "string \<Rightarrow> int option" where
  "parseInt_text s =
     (let t = dropWhile is_space s;
          negative = (t \<noteq> [] \<and> hd t = CHR ''-'');
          u = (if t \<noteq> [] \<and> (hd t = CHR ''-'' \<or> hd t = CHR ''+'') then tl t else t);
          hex = (take 2 u = ''0x'' \<or> take 2 u = ''0X'');
          base = (if hex then 16 else 10);
          ds = takeWhile (is_digit base) (if hex then drop 2 u else u)
      in if ds = [] then None
         else Some (if negative then - int (parse_digits base ds)
                    else int (parse_digits base ds)))"

function first_digit :: "int \<Rightarrow> int" where
  "first_digit n = (if n < 10 then n else first_digit (n div 10))"
  by pat_completeness auto
termination
  by (relation "measure nat") auto

declare first_digit.simps [simp del]

fun parseInt_value :: "json \<Rightarrow> int option" where
  "parseInt_value (JStr s) = parseInt_text s"
| "parseInt_value (JNum n) =
     (if \<bar>n\<bar> < 10 ^ 21 then Some n
      else Some (if n < 0 then - first_digit (- n) else first_digit n))"
| "parseInt_value (JArr (x # xs)) = parseInt_value x"
| "parseInt_value v = None"

definition parseInt :: "json option \<Rightarrow> int option" where
  "parseInt v = (case v of None \<Rightarrow> None | Some x \<Rightarrow> parseInt_value x)"

definition msg_enter_term :: string where
  "msg_enter_term = ''Digite um termo para buscar.''"

definition msg_loading :: string where
  "msg_loading = ''Carregando resultados...''"

definition msg_zero_results :: string where
  "msg_zero_results = ''0 resultados encontrados''"

definition msg_search_error :: string where
  "msg_search_error = ''Erro na busca''"

definition msg_no_result_for :: "string \<Rightarrow> string" where
  "msg_no_result_for searchTerm = ''Nenhum resultado para '' @ [CHR 0x22] @ searchTerm @ [CHR 0x22]"

text \<open>
  \<^verbatim>\<open>renderMovieGrid(movies, container)\<close> of \<^verbatim>\<open>ui.js\<close>, called with a value that is
  truthy and whose length is not 0: it calls \<^verbatim>\<open>movies.forEach\<close>, which only an array
  has, and reads \<^verbatim>\<open>movie.imdbID\<close> of every element, which throws on \<^verbatim>\<open>null\<close>. \<open>None\<close>
  is a normal return. The cards themselves are built from property reads and text
  conversions, which do not throw on the texts that OMDb sends.
\<close>

definition TypeError_forEach :: js_error where
  "TypeError_forEach = JsError ''TypeError'' ''movies.forEach is not a function''"

definition TypeError_imdbID :: js_error where
  "TypeError_imdbID =
     JsError ''TypeError'' (''Cannot read properties of null (reading '' @ [CHR 0x27] @
       ''imdbID'' @ [CHR 0x27] @ '')'')"

definition renderMovieGrid :: "json \<Rightarrow> js_error option" where
  "renderMovieGrid movies =
     (case movies of
        JArr xs \<Rightarrow> if JNull \<in> set xs then Some TypeError_imdbID else None
      | _ \<Rightarrow> Some TypeError_forEach)"

text \<open>
  What the \<^verbatim>\<open>try\<close> block of \<open>performSearch\<close> does with the value \<open>searchMovies\<close>
  resolved with: the new state, and the error that escapes the block, if one does.
  \<open>searchMovies\<close> never resolves with \<^verbatim>\<open>null\<close>, so the property reads do not throw. A
  call to a collaborator is recorded when it is made.
\<close>

definition show_result :: "string \<Rightarrow> json \<Rightarrow> app \<Rightarrow> js_error option \<times> app" where
  "show_result searchTerm result a =
     (let search = field result ''Search''
      in if \<not> truthy_opt search \<or>
            (case search of None \<Rightarrow> False | Some v \<Rightarrow> js_length v = Some (JNum 0))
         then (None,
               a\<lparr>events := events a @
                  [RenderErrorState (msg_no_result_for searchTerm),
                   SetResultsCount msg_zero_results]\<rparr>)
         else
           let movies = (case search of None \<Rightarrow> JNull | Some v \<Rightarrow> v);
               total = (case parseInt (field result ''totalResults'') of
                          None \<Rightarrow> 0
                        | Some n \<Rightarrow> n);
               a1 = a\<lparr>currentMovies := movies, totalResults := total,
                      events := events a @ [RenderMovieGrid movies]\<rparr>
           in case renderMovieGrid movies of
                Some error \<Rightarrow> (Some error, a1)
              | None \<Rightarrow>
                  (let hasNextPage = (currentPage a1 * 10 < totalResults a1)
                   in (None,
                       a1\<lparr>events := events a1 @
                            [UpdateResultsCount (js_length movies) searchTerm,
                             RenderPagination (currentPage a1) hasNextPage]\<rparr>)))"

text \<open>The \<^verbatim>\<open>catch\<close> block of \<open>performSearch\<close>.\<close>

definition performSearch_catch :: "js_error \<Rightarrow> app \<Rightarrow> app" where
  "performSearch_catch error a =
     (if name error \<noteq> ''AbortError''
      then a\<lparr>events := events a @
               [RenderErrorState (getErrorMessage error), SetResultsCount msg_search_error]\<rparr>
      else a)"

text \<open>
  \<open>performSearch\<close>, run from its start to the end of its \<^verbatim>\<open>finally\<close> block. The
  controller it creates may be aborted by a search that starts while this one waits:
  \<open>superseded\<close> is the moment that happens, if it does.
\<close>

definition performSearch :: "string option \<Rightarrow> nat option \<Rightarrow> world \<Rightarrow> app \<Rightarrow> app" where
  "performSearch apiKey superseded w a =
     (let searchTerm = trim (searchInput a)
      in if searchTerm = []
         then a\<lparr>events := events a @ [SetResultsCount msg_enter_term]\<rparr>
         else
           let a1 = (if abortController a then a\<lparr>events := events a @ [AbortPending]\<rparr> else a);
               a2 = a1\<lparr>abortController := True,
                       currentSearchTerm := searchTerm,
                       currentPage := 1,
                       events := events a1 @
                         [RenderLoadingState SKELETON_CARDS_COUNT, AriaLivePolite,
                          SetResultsCount msg_loading]\<rparr>;
               (r, st) = searchMovies apiKey searchTerm (currentPage a2)
                           (Some (AbortSignal superseded)) w (api a2);
               a3 = a2\<lparr>api := st\<rparr>;
               a4 = (case r of
                       Inr result \<Rightarrow>
                         (case show_result searchTerm result a3 of
                            (None, a') \<Rightarrow> a'
                          | (Some error, a') \<Rightarrow> performSearch_catch error a')
                     | Inl error \<Rightarrow> performSearch_catch error a3)
           in a4\<lparr>abortController := False\<rparr>)"

definition handlePageChange ::
  "string option \<Rightarrow> nat option \<Rightarrow> world \<Rightarrow> int \<Rightarrow> app \<Rightarrow> app" where
  "handlePageChange apiKey superseded w page a =
     performSearch apiKey superseded w
       (a\<lparr>currentPage := page, events := events a @ [ScrollToMain]\<rparr>)"

text \<open>
  \<^verbatim>\<open>renderPagination(currentPage, hasNextPage, container, onNextPage)\<close> of \<^verbatim>\<open>ui.js\<close>:
  the pages that its buttons pass to \<^verbatim>\<open>onNextPage\<close>, which is \<open>handlePageChange\<close>.
\<close>

definition renderPagination :: "int \<Rightarrow> bool \<Rightarrow> int list" where
  "renderPagination page hasNextPage =
     (if page > 1 then [page - 1] else []) @ (if hasNextPage then [page + 1] else [])"

subsection \<open>A request on its way\<close>

text \<open>The state in which the request leaves: the lookup's, with the request noted.\<close>

definition sent :: "request \<Rightarrow> int \<Rightarrow> string \<Rightarrow> state \<Rightarrow> state" where
  "sent r now key s =
     (snd (getFromCache now key s))\<lparr>requests := requests (snd (getFromCache now key s)) @ [r]\<rparr>"

section \<open>Sample states\<close>

text \<open>
  The state of \<^verbatim>\<open>api.js\<close> when the module has just been loaded in a browser whose
  storage is empty, and a few concrete situations on which the results below are run.
\<close>

definition empty_state :: state where
  "empty_state = \<lparr>memoryCache = Map.empty, localStorage = [], console = [], requests = []\<rparr>"

definition batman_page :: json where
  "batman_page =
     JObj [(''Search'', JArr [JObj [(''Title'', JStr ''Batman''), (''imdbID'', JStr ''tt0096895'')]]),
           (''totalResults'', JStr ''5''),
           (''Response'', JStr ''True'')]"

text \<open>
  Storage that holds a search result written at time 0, and a slot of another
  application.
\<close>

definition stale_state :: state where
  "stale_state =
     \<lparr>memoryCache = Map.empty,
      localStorage = [(''omdb_search_batman_1'', Entry batman_page 0), (''theme'', Unparsable)],
      console = [], requests = []\<rparr>"

text \<open>The same storage in a page that also holds the result in memory.\<close>

definition warm_state :: state where
  "warm_state = stale_state\<lparr>memoryCache := [''search_batman_1'' \<mapsto> batman_page]\<rparr>"

text \<open>A network that answers after twenty seconds, and one that is down.\<close>

definition slow_world :: world where
  "slow_world =
     \<lparr>clock = 1000, latency = 20000, reply = HttpResponse 200 (JsonBody batman_page),
      storage_full = False\<rparr>"

definition offline_world :: world where
  "offline_world =
     \<lparr>clock = 90000000, latency = 50, reply = NetworkFailure ''Failed to fetch'',
      storage_full = False\<rparr>"

definition fast_world :: world where
  "fast_world =
     \<lparr>clock = 1000, latency = 120, reply = HttpResponse 200 (JsonBody batman_page),
      storage_full = False\<rparr>"

text \<open>A service that answers with a failure of its own, worded like a cancellation.\<close>

definition refusing_world :: world where
  "refusing_world =
     \<lparr>clock = 1000, latency = 120,
      reply = HttpResponse 200
        (JsonBody (JObj [(''Response'', JStr ''False''), (''Error'', JStr ''Busca cancelada.'')])),
      storage_full = False\<rparr>"

text \<open>
  A search that has more than one page: what OMDb answers for its first and second
  page, the page when the module has just been loaded and \<^verbatim>\<open>batman\<close> has been typed,
  and the page after that search has been made.
\<close>

definition batman_first_page :: json where
  "batman_first_page =
     JObj [(''Search'',
            JArr [JObj [(''Title'', JStr ''Batman''), (''imdbID'', JStr ''tt0096895'')],
                  JObj [(''Title'', JStr ''Batman Begins''), (''imdbID'', JStr ''tt0372784'')]]),
           (''totalResults'', JStr ''25''),
           (''Response'', JStr ''True'')]"

definition batman_second_page :: json where
  "batman_second_page =
     JObj [(''Search'',
            JArr [JObj [(''Title'', JStr ''Batman Returns''), (''imdbID'', JStr ''tt0103776'')]]),
           (''totalResults'', JStr ''25''),
           (''Response'', JStr ''True'')]"

definition first_page_world :: world where
  "first_page_world =
     \<lparr>clock = 1000, latency = 120, reply = HttpResponse 200 (JsonBody batman_first_page),
      storage_full = False\<rparr>"

definition second_page_world :: world where
  "second_page_world =
     \<lparr>clock = 60000, latency = 120, reply = HttpResponse 200 (JsonBody batman_second_page),
      storage_full = False\<rparr>"

definition fresh_app :: app where
  "fresh_app =
     \<lparr>searchInput = ''batman'', currentSearchTerm = [], currentPage = 1, totalResults = 0,
      currentMovies = JArr [], abortController = False, events = [], api = empty_state\<rparr>"

definition searched_app :: app where
  "searched_app = performSearch (Some ''a1b2c3d4'') None first_page_world fresh_app"

text \<open>The page after a search for \<^verbatim>\<open>batman\<close> that found five films.\<close>

definition batman_app :: app where
  "batman_app =
     \<lparr>searchInput = ''batman'', currentSearchTerm = ''batman'', currentPage = 1,
      totalResults = 5, currentMovies = JArr [], abortController = False, events = [],
      api = empty_state\<rparr>"

section \<open>The cache tiers\<close>

lemma map_of_fold_delete:
  "map_of (fold AList.delete ks ls) j = (if j \<in> set ks then None else map_of ls j)"
  by (induction ks arbitrary: ls) (auto simp: delete_conv')

lemma getFromCache_memory_hit:
  "memoryCache s k = Some u \<Longrightarrow> getFromCache now k s = (u, s)"
  by (simp add: getFromCache_def)

lemma getFromCache_expired:
  "memoryCache s k = None \<Longrightarrow> map_of (localStorage s) (storageKey k) = Some (Entry v t) \<Longrightarrow>
   now - t > CACHE_TTL \<Longrightarrow>
   getFromCache now k s = (JNull, s\<lparr>localStorage := AList.delete (storageKey k) (localStorage s)\<rparr>)"
  by (simp add: getFromCache_def)

lemma getFromCache_fresh:
  "memoryCache s k = None \<Longrightarrow> map_of (localStorage s) (storageKey k) = Some (Entry v t) \<Longrightarrow>
   now - t \<le> CACHE_TTL \<Longrightarrow>
   getFromCache now k s = (v, s\<lparr>memoryCache := (memoryCache s)(k \<mapsto> v)\<rparr>)"
  by (simp add: getFromCache_def)

lemma getFromCache_absent:
  "memoryCache s k = None \<Longrightarrow> map_of (localStorage s) (storageKey k) = None \<Longrightarrow>
   getFromCache now k s = (JNull, s)"
  by (simp add: getFromCache_def)

lemma setCache_total: "\<exists>s'. setCache full now key data s = Inr s'"
  by (simp add: setCache_def setItem_def Let_def)

lemma setCache_memory:
  "setCache full now key data s = Inr s' \<Longrightarrow> memoryCache s' = (memoryCache s)(key \<mapsto> data)"
  by (auto simp: setCache_def setItem_def Let_def split: if_splits)

text \<open>
  Claim C5. For every key \<open>k\<close> and payload \<open>v\<close>, \<open>set(k, v)\<close> followed immediately by
  \<open>get(k)\<close> returns \<open>v\<close>: the write always succeeds (whether or not the persistent write
  did), and the read that follows, at any time, answers \<open>v\<close> from the in-memory tier.
\<close>

theorem set_then_get:
  "\<exists>s'. setCache full now k v s = Inr s' \<and> fst (getFromCache now' k s') = v"
  by (simp add: setCache_def setItem_def getFromCache_def Let_def)

text \<open>
  Claim C2, as the code has it. The expiry test is made only for a key that the in-memory
  map does not hold. For such a key \<open>k\<close> whose persistent entry is older than the 24
  hours, \<open>get(k)\<close> returns absent and deletes the persistent entry, so that a later
  \<open>get(k)\<close> finds none and changes nothing; a persistent entry within the 24 hours is
  promoted into the in-memory map and returned. A key that the in-memory map holds is
  answered from it, whatever the age of its persistent entry, and nothing is deleted.
\<close>

theorem getFromCache_expiry:
  "(memoryCache s k = None \<and> map_of (localStorage s) (storageKey k) = Some (Entry v t) \<and>
    now - t > CACHE_TTL \<longrightarrow>
      fst (getFromCache now k s) = JNull \<and>
      map_of (localStorage (snd (getFromCache now k s))) (storageKey k) = None \<and>
      getFromCache now' k (snd (getFromCache now k s)) = (JNull, snd (getFromCache now k s))) \<and>
   (memoryCache s k = None \<and> map_of (localStorage s) (storageKey k) = Some (Entry v t) \<and>
    now - t \<le> CACHE_TTL \<longrightarrow>
      fst (getFromCache now k s) = v \<and>
      memoryCache (snd (getFromCache now k s)) k = Some v) \<and>
   (memoryCache s k = Some u \<longrightarrow> getFromCache now k s = (u, s))"
  by (simp add: getFromCache_memory_hit getFromCache_expired getFromCache_fresh
      getFromCache_absent delete_conv')

text \<open>
  The three cases at work: the stored result read a little more than 24 hours after it
  was written, read within 24 hours, and read from a page that has it in memory.
\<close>

theorem getFromCache_expiry_witness:
  "(memoryCache stale_state ''search_batman_1'' = None \<and>
    map_of (localStorage stale_state) (storageKey ''search_batman_1'') = Some (Entry batman_page 0) \<and>
    86400001 - 0 > CACHE_TTL \<and>
    fst (getFromCache 86400001 ''search_batman_1'' stale_state) = JNull \<and>
    map_of (localStorage (snd (getFromCache 86400001 ''search_batman_1'' stale_state)))
      (storageKey ''search_batman_1'') = None \<and>
    getFromCache 86400002 ''search_batman_1''
      (snd (getFromCache 86400001 ''search_batman_1'' stale_state)) =
      (JNull, snd (getFromCache 86400001 ''search_batman_1'' stale_state))) \<and>
   (86400000 - 0 \<le> CACHE_TTL \<and>
    fst (getFromCache 86400000 ''search_batman_1'' stale_state) = batman_page \<and>
    memoryCache (snd (getFromCache 86400000 ''search_batman_1'' stale_state))
      ''search_batman_1'' = Some batman_page) \<and>
   (memoryCache warm_state ''search_batman_1'' = Some batman_page \<and>
    getFromCache 86400001 ''search_batman_1'' warm_state = (batman_page, warm_state))"
proof -
  have mem: "memoryCache stale_state ''search_batman_1'' = None"
    by (simp add: stale_state_def)
  have sto: "map_of (localStorage stale_state) (storageKey ''search_batman_1'') =
      Some (Entry batman_page 0)"
    by (simp add: stale_state_def storageKey_def)
  have old: "(86400001::int) - 0 > CACHE_TTL" and young: "(86400000::int) - 0 \<le> CACHE_TTL"
    by (simp_all add: CACHE_TTL_def)
  have warm: "memoryCache warm_state ''search_batman_1'' = Some batman_page"
    by (simp add: warm_state_def)
  show ?thesis
    using mem sto old young warm
      getFromCache_expiry [where s = stale_state and k = "''search_batman_1''"
        and v = batman_page and t = 0 and now = 86400001 and now' = 86400002]
      getFromCache_expiry [where s = stale_state and k = "''search_batman_1''"
        and v = batman_page and t = 0 and now = 86400000]
      getFromCache_expiry [where s = warm_state and k = "''search_batman_1''"
        and u = batman_page and now = 86400001]
    by simp
qed

text \<open>
  The claim as worded speaks of every key whose entry is older than the 24 hours. In a
  page that holds the key in memory, \<open>get\<close> returns the payload 24 hours and one
  millisecond after it was stored, and the persistent entry stays.
\<close>

theorem getFromCache_expiry_counterexample:
  "map_of (localStorage warm_state) (storageKey ''search_batman_1'') = Some (Entry batman_page 0) \<and>
   86400001 - 0 > CACHE_TTL \<and>
   fst (getFromCache 86400001 ''search_batman_1'' warm_state) = batman_page \<and>
   batman_page \<noteq> JNull \<and>
   map_of (localStorage (snd (getFromCache 86400001 ''search_batman_1'' warm_state)))
     (storageKey ''search_batman_1'') = Some (Entry batman_page 0)"
  by (simp add: warm_state_def stale_state_def storageKey_def CACHE_TTL_def getFromCache_def
      batman_page_def)

text \<open>
  Claim C6. After \<open>clear()\<close>, every key \<open>k\<close> (so every key set before) is absent from the
  in-memory map and from persistent storage, and \<open>get(k)\<close> returns absent; a persistent
  slot whose name does not start with \<^verbatim>\<open>omdb_\<close> is as it was.
\<close>

theorem clearCache_clears:
  "(memoryCache (clearCache s) k = None \<and>
    map_of (localStorage (clearCache s)) (storageKey k) = None \<and>
    fst (getFromCache now k (clearCache s)) = JNull) \<and>
   (\<not> startsWith j ''omdb_'' \<longrightarrow>
      map_of (localStorage (clearCache s)) j = map_of (localStorage s) j)"
proof -
  have mem: "memoryCache (clearCache s) k = None"
    by (simp add: clearCache_def Let_def)
  have sto: "map_of (localStorage (clearCache s)) (storageKey k) = None"
    by (auto simp: clearCache_def Let_def map_of_fold_delete storageKey_def startsWith_def
        map_of_eq_None_iff)
  have get: "fst (getFromCache now k (clearCache s)) = JNull"
    using mem sto by (simp add: getFromCache_absent)
  have other: "\<not> startsWith j ''omdb_'' \<Longrightarrow>
      map_of (localStorage (clearCache s)) j = map_of (localStorage s) j"
    by (simp add: clearCache_def Let_def map_of_fold_delete)
  from mem sto get other show ?thesis by blast
qed

theorem clearCache_clears_witness:
  "memoryCache warm_state ''search_batman_1'' = Some batman_page \<and>
   map_of (localStorage warm_state) (storageKey ''search_batman_1'') = Some (Entry batman_page 0) \<and>
   memoryCache (clearCache warm_state) ''search_batman_1'' = None \<and>
   map_of (localStorage (clearCache warm_state)) (storageKey ''search_batman_1'') = None \<and>
   fst (getFromCache 5 ''search_batman_1'' (clearCache warm_state)) = JNull \<and>
   \<not> startsWith ''theme'' ''omdb_'' \<and>
   map_of (localStorage (clearCache warm_state)) ''theme'' = Some Unparsable"
proof -
  have a: "memoryCache warm_state ''search_batman_1'' = Some batman_page"
    by (simp add: warm_state_def)
  have b: "map_of (localStorage warm_state) (storageKey ''search_batman_1'') =
      Some (Entry batman_page 0)"
    by (simp add: warm_state_def stale_state_def storageKey_def)
  have c: "\<not> startsWith ''theme'' ''omdb_''"
    by (simp add: startsWith_def)
  have d: "map_of (localStorage warm_state) ''theme'' = Some Unparsable"
    by (simp add: warm_state_def stale_state_def)
  show ?thesis
    using a b c d clearCache_clears [where s = warm_state and k = "''search_batman_1''"
        and now = 5 and j = "''theme''"]
    by simp
qed

text \<open>
  Claim C8. When the persistent write inside \<open>set\<close> throws, \<open>set\<close> still returns
  normally: the in-memory map holds the payload under the key and is otherwise as it
  was, persistent storage is as it was, and the failure is only logged.
\<close>

theorem setCache_absorbs_failure:
  "\<exists>s'. setCache True now k v s = Inr s' \<and>
        memoryCache s' = (memoryCache s)(k \<mapsto> v) \<and>
        localStorage s' = localStorage s \<and>
        console s' = console s @ [warn_full]"
  by (simp add: setCache_def setItem_def Let_def)

section \<open>The request layer\<close>

lemma trim_empty_iff: "trim s = [] \<longleftrightarrow> (\<forall>c \<in> set s. is_space c)"
proof
  assume "trim s = []"
  then have all: "\<forall>x \<in> set (dropWhile is_space s). is_space x"
    by (simp add: trim_def dropWhile_eq_Nil_conv)
  have "dropWhile is_space s = []"
  proof (rule ccontr)
    assume ne: "dropWhile is_space s \<noteq> []"
    then have "\<not> is_space (hd (dropWhile is_space s))" by (rule hd_dropWhile)
    moreover have "hd (dropWhile is_space s) \<in> set (dropWhile is_space s)"
      using ne by simp
    ultimately show False using all by blast
  qed
  then show "\<forall>c \<in> set s. is_space c" by (simp add: dropWhile_eq_Nil_conv)
next
  assume "\<forall>c \<in> set s. is_space c"
  then have d: "dropWhile is_space s = []" by (simp add: dropWhile_eq_Nil_conv)
  show "trim s = []" unfolding trim_def d by simp
qed

lemma trim_nonempty: "trim s \<noteq> [] \<Longrightarrow> s \<noteq> []"
  by (auto simp: trim_def)

lemma invalid_keys:
  "apiKey = None \<or> apiKey = Some ''YOUR_API_KEY_HERE'' \<or> (\<exists>k. apiKey = Some k \<and> length k \<le> 5)
   \<Longrightarrow> \<not> isValidAPIKey apiKey"
  by (auto simp: isValidAPIKey_def API_KEY_PLACEHOLDER_def)

lemma searchMovies_invalid_key:
  "\<not> isValidAPIKey apiKey \<Longrightarrow>
   searchMovies apiKey searchTerm page sg w s = (Inl (Error msg_api_key), s)"
  by (simp add: searchMovies_def)

lemma getMovieDetails_invalid_key:
  "\<not> isValidAPIKey apiKey \<Longrightarrow>
   getMovieDetails apiKey imdbID sg w s = (Inl (Error msg_api_key), s)"
  by (simp add: getMovieDetails_def)

lemma searchMovies_blank:
  "isValidAPIKey apiKey \<Longrightarrow> trim searchTerm = [] \<Longrightarrow>
   searchMovies apiKey searchTerm page sg w s = (Inl (Error msg_empty_term), s)"
  by (simp add: searchMovies_def)

lemma getMovieDetails_blank:
  "isValidAPIKey apiKey \<Longrightarrow> trim imdbID = [] \<Longrightarrow>
   getMovieDetails apiKey imdbID sg w s = (Inl (Error msg_invalid_id), s)"
  by (simp add: getMovieDetails_def)

lemma searchMovies_hit:
  "isValidAPIKey apiKey \<Longrightarrow> trim searchTerm \<noteq> [] \<Longrightarrow>
   truthy (fst (getFromCache (clock w) (searchCacheKey searchTerm page) s)) \<Longrightarrow>
   searchMovies apiKey searchTerm page sg w s =
     (Inr (fst (getFromCache (clock w) (searchCacheKey searchTerm page) s)),
      snd (getFromCache (clock w) (searchCacheKey searchTerm page) s))"
  by (frule trim_nonempty) (simp add: searchMovies_def Let_def case_prod_beta)

lemma getMovieDetails_hit:
  "isValidAPIKey apiKey \<Longrightarrow> trim imdbID \<noteq> [] \<Longrightarrow>
   truthy (fst (getFromCache (clock w) (detailCacheKey imdbID) s)) \<Longrightarrow>
   getMovieDetails apiKey imdbID sg w s =
     (Inr (fst (getFromCache (clock w) (detailCacheKey imdbID) s)),
      snd (getFromCache (clock w) (detailCacheKey imdbID) s))"
  by (frule trim_nonempty) (simp add: getMovieDetails_def Let_def case_prod_beta)

lemma searchMovies_miss:
  "isValidAPIKey apiKey \<Longrightarrow> trim searchTerm \<noteq> [] \<Longrightarrow>
   \<not> truthy (fst (getFromCache (clock w) (searchCacheKey searchTerm page) s)) \<Longrightarrow>
   searchMovies apiKey searchTerm page sg w s =
     (let s2 = sent (SearchRequest (url_key apiKey) (trim searchTerm) page) (clock w)
                 (searchCacheKey searchTerm page) s
      in case searchMovies_try (searchCacheKey searchTerm page)
                (case sg of Some x \<Rightarrow> x | None \<Rightarrow> AbortSignal (Some SEARCH_TIMEOUT)) w s2 of
           Inr (data, s3) \<Rightarrow> (Inr data, s3)
         | Inl error \<Rightarrow>
             if name error = ''AbortError'' then (Inl (Error msg_search_cancelled), s2)
             else (Inl error, s2))"
  by (frule trim_nonempty, cases sg)
     (simp_all add: searchMovies_def Let_def case_prod_beta sent_def timer_abort_def)


lemma getMovieDetails_miss:
  "isValidAPIKey apiKey \<Longrightarrow> trim imdbID \<noteq> [] \<Longrightarrow>
   \<not> truthy (fst (getFromCache (clock w) (detailCacheKey imdbID) s)) \<Longrightarrow>
   getMovieDetails apiKey imdbID sg w s =
     (let s2 = sent (DetailRequest (url_key apiKey) imdbID) (clock w) (detailCacheKey imdbID) s
      in case getMovieDetails_try (detailCacheKey imdbID)
                (case sg of Some x \<Rightarrow> x | None \<Rightarrow> AbortSignal (Some SEARCH_TIMEOUT)) w s2 of
           Inr (data, s3) \<Rightarrow> (Inr data, s3)
         | Inl error \<Rightarrow>
             if name error = ''AbortError'' then (Inl (Error msg_request_cancelled), s2)
             else (Inl error, s2))"
  by (frule trim_nonempty, cases sg)
     (simp_all add: getMovieDetails_def Let_def case_prod_beta sent_def timer_abort_def)

lemma fetch_aborted:
  "aborted_after sg = Some t \<Longrightarrow> t \<le> latency w \<Longrightarrow> fetch w sg = Inl AbortError"
  by (simp add: fetch_def Let_def)

lemma searchMovies_try_aborted:
  "aborted_after sg = Some t \<Longrightarrow> t \<le> latency w \<Longrightarrow>
   searchMovies_try key sg w s = Inl AbortError"
  by (simp add: searchMovies_try_def fetch_aborted)

lemma getMovieDetails_try_aborted:
  "aborted_after sg = Some t \<Longrightarrow> t \<le> latency w \<Longrightarrow>
   getMovieDetails_try key sg w s = Inl AbortError"
  by (simp add: getMovieDetails_try_def fetch_aborted)

lemma searchMovies_try_Inr:
  "searchMovies_try key sg w s = Inr (d, s') \<Longrightarrow>
   validateAPIResponse d ''search'' = Inr True \<and>
   setCache (storage_full w) (clock w + int (latency w)) key d s = Inr s'"
  by (auto simp: searchMovies_try_def validateAPIResponse_def
      split: sum.splits prod.splits if_splits body.splits)

lemma getMovieDetails_try_Inr:
  "getMovieDetails_try key sg w s = Inr (d, s') \<Longrightarrow>
   validateAPIResponse d ''detail'' = Inr True \<and>
   setCache (storage_full w) (clock w + int (latency w)) key d s = Inr s'"
  by (auto simp: getMovieDetails_try_def validateAPIResponse_def
      split: sum.splits prod.splits if_splits body.splits)

lemma validate_truthy: "validateAPIResponse d type = Inr b \<Longrightarrow> type = ''search'' \<or> type = ''detail'' \<Longrightarrow> truthy d"
  by (cases d) (auto simp: validateAPIResponse_def truthy_opt_def split: if_splits)

lemma setCache_frame:
  "setCache full now key data s = Inr s' \<Longrightarrow>
   requests s' = requests s \<and> memoryCache s' = (memoryCache s)(key \<mapsto> data)"
  by (auto simp: setCache_def setItem_def Let_def split: if_splits)

lemma getFromCache_requests: "requests (snd (getFromCache now k s)) = requests s"
  by (simp add: getFromCache_def Let_def split: option.splits item.splits)

lemma getFromCache_storage_sub:
  "map_of (localStorage (snd (getFromCache now k s))) j = Some x \<Longrightarrow>
   map_of (localStorage s) j = Some x"
  by (auto simp: getFromCache_def Let_def delete_conv' split: option.splits item.splits if_splits)

lemma getFromCache_truthy_memory:
  "truthy (fst (getFromCache now k s)) \<Longrightarrow>
   memoryCache (snd (getFromCache now k s)) k = Some (fst (getFromCache now k s))"
  by (auto simp: getFromCache_def Let_def split: option.splits item.splits if_splits)

lemma sent_simps:
  "memoryCache (sent r now k s) = memoryCache (snd (getFromCache now k s))"
  "localStorage (sent r now k s) = localStorage (snd (getFromCache now k s))"
  "requests (sent r now k s) = requests s @ [r]"
  by (simp_all add: sent_def getFromCache_requests)


lemma searchMovies_failure_state:
  assumes "fst (searchMovies apiKey searchTerm page sg w s) = Inl e"
  shows "snd (searchMovies apiKey searchTerm page sg w s) = s \<or>
         snd (searchMovies apiKey searchTerm page sg w s) =
           sent (SearchRequest (url_key apiKey) (trim searchTerm) page) (clock w)
             (searchCacheKey searchTerm page) s"
proof (cases "isValidAPIKey apiKey \<and> trim searchTerm \<noteq> []")
  case False
  then show ?thesis
    by (cases "isValidAPIKey apiKey") (simp_all add: searchMovies_invalid_key searchMovies_blank)
next
  case True
  show ?thesis
  proof (cases "truthy (fst (getFromCache (clock w) (searchCacheKey searchTerm page) s))")
    case hit: True
    with True assms show ?thesis by (simp add: searchMovies_hit)
  next
    case miss: False
    with True assms show ?thesis
      by (auto simp: searchMovies_miss Let_def split: sum.splits prod.splits if_splits)
  qed
qed

lemma getMovieDetails_failure_state:
  assumes "fst (getMovieDetails apiKey imdbID sg w s) = Inl e"
  shows "snd (getMovieDetails apiKey imdbID sg w s) = s \<or>
         snd (getMovieDetails apiKey imdbID sg w s) =
           sent (DetailRequest (url_key apiKey) imdbID) (clock w) (detailCacheKey imdbID) s"
proof (cases "isValidAPIKey apiKey \<and> trim imdbID \<noteq> []")
  case False
  then show ?thesis
    by (cases "isValidAPIKey apiKey")
       (simp_all add: getMovieDetails_invalid_key getMovieDetails_blank)
next
  case True
  show ?thesis
  proof (cases "truthy (fst (getFromCache (clock w) (detailCacheKey imdbID) s))")
    case hit: True
    with True assms show ?thesis by (simp add: getMovieDetails_hit)
  next
    case miss: False
    with True assms show ?thesis
      by (auto simp: getMovieDetails_miss Let_def split: sum.splits prod.splits if_splits)
  qed
qed

lemma searchMovies_success:
  assumes ok: "searchMovies apiKey searchTerm page sg w s = (Inr d, s')"
  shows "isValidAPIKey apiKey \<and> trim searchTerm \<noteq> [] \<and> truthy d \<and>
         memoryCache s' (searchCacheKey searchTerm page) = Some d"
proof -
  have valid: "isValidAPIKey apiKey"
    using ok by (cases "isValidAPIKey apiKey") (simp_all add: searchMovies_invalid_key)
  have nonblank: "trim searchTerm \<noteq> []"
    using ok valid by (cases "trim searchTerm = []") (simp_all add: searchMovies_blank)
  show ?thesis
  proof (cases "truthy (fst (getFromCache (clock w) (searchCacheKey searchTerm page) s))")
    case True
    with valid nonblank ok show ?thesis
      by (auto simp: searchMovies_hit getFromCache_truthy_memory)
  next
    case False
    with valid nonblank ok obtain s2 sg' where
      tr: "searchMovies_try (searchCacheKey searchTerm page) sg' w s2 = Inr (d, s')"
      by (auto simp: searchMovies_miss Let_def split: sum.splits prod.splits if_splits)
    from searchMovies_try_Inr [OF tr] show ?thesis
      using valid nonblank by (auto dest: validate_truthy setCache_frame)
  qed
qed

lemma searchMovies_requests_miss:
  assumes "isValidAPIKey apiKey" and "trim searchTerm \<noteq> []"
    and "\<not> truthy (fst (getFromCache (clock w) (searchCacheKey searchTerm page) s))"
  shows "requests (snd (searchMovies apiKey searchTerm page sg w s)) =
         requests s @ [SearchRequest (url_key apiKey) (trim searchTerm) page]"
proof -
  let ?s2 = "sent (SearchRequest (url_key apiKey) (trim searchTerm) page) (clock w)
               (searchCacheKey searchTerm page) s"
  let ?sg = "case sg of Some x \<Rightarrow> x | None \<Rightarrow> AbortSignal (Some SEARCH_TIMEOUT)"
  show ?thesis
  proof (cases "searchMovies_try (searchCacheKey searchTerm page) ?sg w ?s2")
    case (Inl e)
    with assms show ?thesis
      by (simp add: searchMovies_miss Let_def sent_simps)
  next
    case (Inr p)
    then obtain d s3 where p: "searchMovies_try (searchCacheKey searchTerm page) ?sg w ?s2 = Inr (d, s3)"
      by (cases p) simp
    from searchMovies_try_Inr [OF p] have "requests s3 = requests ?s2"
      by (auto dest: setCache_frame)
    with assms p show ?thesis
      by (simp add: searchMovies_miss Let_def sent_simps)
  qed
qed

text \<open>
  Claim C7. A search or detail call whose credential is missing, is the placeholder, or
  has five characters or fewer fails with the configuration error; with a well-formed
  credential, a search whose term is empty or all white space, and a detail call whose
  identifier is empty (or all white space), fail with their validation errors. In every case the state comes
  back as it was: nothing was looked up and no request was sent. The credential is
  tested first, so a call that has both defects fails with the configuration error.
\<close>

theorem preconditions_fail_fast:
  "((apiKey = None \<or> apiKey = Some ''YOUR_API_KEY_HERE'' \<or>
     (\<exists>k. apiKey = Some k \<and> length k \<le> 5)) \<longrightarrow>
      searchMovies apiKey searchTerm page sg w s = (Inl (Error msg_api_key), s) \<and>
      getMovieDetails apiKey imdbID sg w s = (Inl (Error msg_api_key), s)) \<and>
   (isValidAPIKey apiKey \<and> (\<forall>c \<in> set searchTerm. is_space c) \<longrightarrow>
      searchMovies apiKey searchTerm page sg w s = (Inl (Error msg_empty_term), s)) \<and>
   (isValidAPIKey apiKey \<and> (\<forall>c \<in> set imdbID. is_space c) \<longrightarrow>
      getMovieDetails apiKey imdbID sg w s = (Inl (Error msg_invalid_id), s)) \<and>
   msg_api_key \<noteq> msg_empty_term \<and> msg_api_key \<noteq> msg_invalid_id"
proof -
  have key: "apiKey = None \<or> apiKey = Some ''YOUR_API_KEY_HERE'' \<or>
      (\<exists>k. apiKey = Some k \<and> length k \<le> 5) \<Longrightarrow>
      searchMovies apiKey searchTerm page sg w s = (Inl (Error msg_api_key), s) \<and>
      getMovieDetails apiKey imdbID sg w s = (Inl (Error msg_api_key), s)"
    by (drule invalid_keys) (simp add: searchMovies_invalid_key getMovieDetails_invalid_key)
  have blank: "isValidAPIKey apiKey \<and> (\<forall>c \<in> set searchTerm. is_space c) \<Longrightarrow>
      searchMovies apiKey searchTerm page sg w s = (Inl (Error msg_empty_term), s)"
    by (simp add: searchMovies_blank trim_empty_iff)
  have ident: "isValidAPIKey apiKey \<and> (\<forall>c \<in> set imdbID. is_space c) \<Longrightarrow>
      getMovieDetails apiKey imdbID sg w s = (Inl (Error msg_invalid_id), s)"
    by (simp add: getMovieDetails_blank trim_empty_iff)
  have msgs: "msg_api_key \<noteq> msg_empty_term \<and> msg_api_key \<noteq> msg_invalid_id"
    by (simp add: msg_api_key_def msg_empty_term_def msg_invalid_id_def)
  from key blank ident msgs show ?thesis by blast
qed

theorem preconditions_fail_fast_witness:
  "searchMovies None ''batman'' 1 None slow_world empty_state = (Inl (Error msg_api_key), empty_state) \<and>
   getMovieDetails None ''tt0096895'' None slow_world empty_state = (Inl (Error msg_api_key), empty_state) \<and>
   searchMovies (Some ''YOUR_API_KEY_HERE'') ''batman'' 1 None slow_world empty_state =
     (Inl (Error msg_api_key), empty_state) \<and>
   length ''abcde'' \<le> 5 \<and>
   searchMovies (Some ''abcde'') ''batman'' 1 None slow_world empty_state =
     (Inl (Error msg_api_key), empty_state) \<and>
   isValidAPIKey (Some ''a1b2c3d4'') \<and>
   searchMovies (Some ''a1b2c3d4'') [CHR '' '', CHR 0x09] 1 None slow_world empty_state =
     (Inl (Error msg_empty_term), empty_state) \<and>
   getMovieDetails (Some ''a1b2c3d4'') [] None slow_world empty_state =
     (Inl (Error msg_invalid_id), empty_state) \<and>
   requests empty_state = []"
proof -
  have valid: "isValidAPIKey (Some ''a1b2c3d4'')"
    by (simp add: isValidAPIKey_def API_KEY_PLACEHOLDER_def)
  have blank: "\<forall>c \<in> set [CHR '' '', CHR 0x09]. is_space c"
    by (simp add: is_space_def)
  have short: "\<exists>k. Some ''abcde'' = Some k \<and> length k \<le> 5"
    by simp
  show ?thesis
    using valid blank short
      preconditions_fail_fast [where apiKey = None and searchTerm = "''batman''" and page = 1
        and sg = None and w = slow_world and s = empty_state and imdbID = "''tt0096895''"]
      preconditions_fail_fast [where apiKey = "Some ''YOUR_API_KEY_HERE''"
        and searchTerm = "''batman''" and page = 1
        and sg = None and w = slow_world and s = empty_state and imdbID = "''tt0096895''"]
      preconditions_fail_fast [where apiKey = "Some ''abcde''"
        and searchTerm = "''batman''" and page = 1
        and sg = None and w = slow_world and s = empty_state and imdbID = "''tt0096895''"]
      preconditions_fail_fast [where apiKey = "Some ''a1b2c3d4''"
        and searchTerm = "[CHR '' '', CHR 0x09]" and page = 1
        and sg = None and w = slow_world and s = empty_state and imdbID = "[]"]
    by (simp add: empty_state_def)
qed

text \<open>
  Claim C4. For a search that passes the two precondition tests (a well-formed
  credential, a term that is not blank; the other calls fail as claim C7 says), a payload
  held under the derived key, in memory or in a persistent entry within the 24 hours, is
  returned and no request is sent. The payload is truthy, as every payload is that
  \<open>setCache\<close> was given, since it passed \<open>validateAPIResponse\<close>. A search that returned
  data returns the same data when repeated on the state it left, at any later time,
  without a request.
\<close>

theorem cache_hit_skips_network:
  "(isValidAPIKey apiKey \<and> trim searchTerm \<noteq> [] \<and> truthy v \<and>
    (memoryCache s (searchCacheKey searchTerm page) = Some v \<or>
     memoryCache s (searchCacheKey searchTerm page) = None \<and>
     map_of (localStorage s) (storageKey (searchCacheKey searchTerm page)) = Some (Entry v t) \<and>
     clock w - t \<le> CACHE_TTL) \<longrightarrow>
      fst (searchMovies apiKey searchTerm page sg w s) = Inr v \<and>
      requests (snd (searchMovies apiKey searchTerm page sg w s)) = requests s) \<and>
   (searchMovies apiKey searchTerm page sg w s = (Inr d, s') \<longrightarrow>
      fst (searchMovies apiKey searchTerm page sg' w' s') = Inr d \<and>
      requests (snd (searchMovies apiKey searchTerm page sg' w' s')) = requests s')"
proof -
  have hit: "fst (searchMovies apiKey searchTerm page sg w s) = Inr v \<and>
      requests (snd (searchMovies apiKey searchTerm page sg w s)) = requests s"
    if valid: "isValidAPIKey apiKey" and nonblank: "trim searchTerm \<noteq> []" and v: "truthy v"
      and held: "memoryCache s (searchCacheKey searchTerm page) = Some v \<or>
        memoryCache s (searchCacheKey searchTerm page) = None \<and>
        map_of (localStorage s) (storageKey (searchCacheKey searchTerm page)) = Some (Entry v t) \<and>
        clock w - t \<le> CACHE_TTL"
  proof -
    have "fst (getFromCache (clock w) (searchCacheKey searchTerm page) s) = v"
      using held by (auto simp: getFromCache_memory_hit getFromCache_fresh)
    with valid nonblank v show ?thesis
      by (simp add: searchMovies_hit getFromCache_requests)
  qed
  have again: "fst (searchMovies apiKey searchTerm page sg' w' s') = Inr d \<and>
      requests (snd (searchMovies apiKey searchTerm page sg' w' s')) = requests s'"
    if ok: "searchMovies apiKey searchTerm page sg w s = (Inr d, s')"
  proof -
    from searchMovies_success [OF ok]
    have valid: "isValidAPIKey apiKey" and nonblank: "trim searchTerm \<noteq> []"
      and d: "truthy d" and mem: "memoryCache s' (searchCacheKey searchTerm page) = Some d"
      by simp_all
    from mem have "getFromCache (clock w') (searchCacheKey searchTerm page) s' = (d, s')"
      by (rule getFromCache_memory_hit)
    with valid nonblank d show ?thesis
      by (simp add: searchMovies_hit)
  qed
  from hit again show ?thesis by blast
qed


lemma searchCacheKey_batman:
  "searchCacheKey ''Batman'' 1 = ''search_batman_1''"
  "searchCacheKey ''batman'' 1 = ''search_batman_1''"
  by (simp_all add: searchCacheKey_def toLowerCase_def lower_char_def capital_letters_def
      small_letters_def show_int_def show_nat.simps digit_char_def)

lemma sample_key_valid: "isValidAPIKey (Some ''a1b2c3d4'')"
  by (simp add: isValidAPIKey_def API_KEY_PLACEHOLDER_def)

lemma trim_batman: "trim ''Batman'' = ''Batman''" "trim ''batman'' = ''batman''"
  by (simp_all add: trim_def is_space_def)

lemma truthy_batman_page: "truthy batman_page"
  by (simp add: batman_page_def)

lemma first_search_succeeds:
  "fst (searchMovies (Some ''a1b2c3d4'') ''Batman'' 1 None fast_world empty_state) = Inr batman_page"
  by (simp add: searchMovies_miss searchMovies_try_def sample_key_valid trim_batman
      searchCacheKey_batman getFromCache_def empty_state_def fast_world_def fetch_def
      SEARCH_TIMEOUT_def response_ok_def validateAPIResponse_def batman_page_def truthy_opt_def
      setCache_def setItem_def sent_def Let_def)

theorem cache_hit_skips_network_witness:
  "isValidAPIKey (Some ''a1b2c3d4'') \<and> trim ''Batman'' \<noteq> [] \<and> truthy batman_page \<and>
   memoryCache warm_state (searchCacheKey ''Batman'' 1) = Some batman_page \<and>
   fst (searchMovies (Some ''a1b2c3d4'') ''Batman'' 1 None offline_world warm_state) =
     Inr batman_page \<and>
   requests (snd (searchMovies (Some ''a1b2c3d4'') ''Batman'' 1 None offline_world warm_state)) =
     requests warm_state \<and>
   fst (searchMovies (Some ''a1b2c3d4'') ''Batman'' 1 None fast_world empty_state) =
     Inr batman_page \<and>
   fst (searchMovies (Some ''a1b2c3d4'') ''Batman'' 1 None offline_world
          (snd (searchMovies (Some ''a1b2c3d4'') ''Batman'' 1 None fast_world empty_state))) =
     Inr batman_page \<and>
   requests (snd (searchMovies (Some ''a1b2c3d4'') ''Batman'' 1 None offline_world
          (snd (searchMovies (Some ''a1b2c3d4'') ''Batman'' 1 None fast_world empty_state)))) =
     requests (snd (searchMovies (Some ''a1b2c3d4'') ''Batman'' 1 None fast_world empty_state))"
proof -
  have held: "memoryCache warm_state (searchCacheKey ''Batman'' 1) = Some batman_page"
    by (simp add: searchCacheKey_batman warm_state_def)
  have first: "searchMovies (Some ''a1b2c3d4'') ''Batman'' 1 None fast_world empty_state =
      (Inr batman_page,
       snd (searchMovies (Some ''a1b2c3d4'') ''Batman'' 1 None fast_world empty_state))"
    using first_search_succeeds by (simp add: prod_eq_iff)
  show ?thesis
    using sample_key_valid truthy_batman_page held first first_search_succeeds
      cache_hit_skips_network [where apiKey = "Some ''a1b2c3d4''" and searchTerm = "''Batman''"
        and page = 1 and v = batman_page and s = warm_state and sg = None
        and w = offline_world]
      cache_hit_skips_network [where apiKey = "Some ''a1b2c3d4''" and searchTerm = "''Batman''"
        and page = 1 and s = empty_state and sg = None and w = fast_world and d = batman_page
        and s' = "snd (searchMovies (Some ''a1b2c3d4'') ''Batman'' 1 None fast_world empty_state)"
        and sg' = None and w' = offline_world]
    by (simp add: trim_batman)
qed

text \<open>
  Claim C10, as the code has it. A request that fails did not reach \<open>setCache\<close>: both
  tiers are as they were before the call or, when the call got as far as the cache
  lookup, as that lookup left them; in either case persistent storage holds no entry
  that it did not hold before. The lookup is the part that can change the cache: it
  deletes an expired persistent entry of the derived key.
\<close>

theorem failed_request_writes_nothing:
  "(fst (searchMovies apiKey searchTerm page sg w s) = Inl e \<longrightarrow>
      (memoryCache (snd (searchMovies apiKey searchTerm page sg w s)) = memoryCache s \<and>
       localStorage (snd (searchMovies apiKey searchTerm page sg w s)) = localStorage s \<or>
       memoryCache (snd (searchMovies apiKey searchTerm page sg w s)) =
         memoryCache (snd (getFromCache (clock w) (searchCacheKey searchTerm page) s)) \<and>
       localStorage (snd (searchMovies apiKey searchTerm page sg w s)) =
         localStorage (snd (getFromCache (clock w) (searchCacheKey searchTerm page) s))) \<and>
      (\<forall>j x. map_of (localStorage (snd (searchMovies apiKey searchTerm page sg w s))) j = Some x
         \<longrightarrow> map_of (localStorage s) j = Some x)) \<and>
   (fst (getMovieDetails apiKey imdbID sg w s) = Inl e' \<longrightarrow>
      (memoryCache (snd (getMovieDetails apiKey imdbID sg w s)) = memoryCache s \<and>
       localStorage (snd (getMovieDetails apiKey imdbID sg w s)) = localStorage s \<or>
       memoryCache (snd (getMovieDetails apiKey imdbID sg w s)) =
         memoryCache (snd (getFromCache (clock w) (detailCacheKey imdbID) s)) \<and>
       localStorage (snd (getMovieDetails apiKey imdbID sg w s)) =
         localStorage (snd (getFromCache (clock w) (detailCacheKey imdbID) s))) \<and>
      (\<forall>j x. map_of (localStorage (snd (getMovieDetails apiKey imdbID sg w s))) j = Some x
         \<longrightarrow> map_of (localStorage s) j = Some x))"
proof -
  have search: "fst (searchMovies apiKey searchTerm page sg w s) = Inl e \<Longrightarrow>
      (memoryCache (snd (searchMovies apiKey searchTerm page sg w s)) = memoryCache s \<and>
       localStorage (snd (searchMovies apiKey searchTerm page sg w s)) = localStorage s \<or>
       memoryCache (snd (searchMovies apiKey searchTerm page sg w s)) =
         memoryCache (snd (getFromCache (clock w) (searchCacheKey searchTerm page) s)) \<and>
       localStorage (snd (searchMovies apiKey searchTerm page sg w s)) =
         localStorage (snd (getFromCache (clock w) (searchCacheKey searchTerm page) s))) \<and>
      (\<forall>j x. map_of (localStorage (snd (searchMovies apiKey searchTerm page sg w s))) j = Some x
         \<longrightarrow> map_of (localStorage s) j = Some x)"
    by (drule searchMovies_failure_state) (auto simp: sent_simps dest: getFromCache_storage_sub)
  have detail: "fst (getMovieDetails apiKey imdbID sg w s) = Inl e' \<Longrightarrow>
      (memoryCache (snd (getMovieDetails apiKey imdbID sg w s)) = memoryCache s \<and>
       localStorage (snd (getMovieDetails apiKey imdbID sg w s)) = localStorage s \<or>
       memoryCache (snd (getMovieDetails apiKey imdbID sg w s)) =
         memoryCache (snd (getFromCache (clock w) (detailCacheKey imdbID) s)) \<and>
       localStorage (snd (getMovieDetails apiKey imdbID sg w s)) =
         localStorage (snd (getFromCache (clock w) (detailCacheKey imdbID) s))) \<and>
      (\<forall>j x. map_of (localStorage (snd (getMovieDetails apiKey imdbID sg w s))) j = Some x
         \<longrightarrow> map_of (localStorage s) j = Some x)"
    by (drule getMovieDetails_failure_state) (auto simp: sent_simps dest: getFromCache_storage_sub)
  from search detail show ?thesis by blast
qed


lemma offline_search_fails:
  "fst (searchMovies (Some ''a1b2c3d4'') ''batman'' 1 None offline_world stale_state) =
     Inl (JsError ''TypeError'' ''Failed to fetch'')"
  "localStorage (snd (searchMovies (Some ''a1b2c3d4'') ''batman'' 1 None offline_world stale_state)) =
     [(''theme'', Unparsable)]"
  by (simp_all add: searchMovies_miss searchMovies_try_def sample_key_valid trim_batman
      searchCacheKey_batman getFromCache_def stale_state_def offline_world_def fetch_def
      SEARCH_TIMEOUT_def sent_def Let_def storageKey_def CACHE_TTL_def)

lemma offline_detail_fails:
  "fst (getMovieDetails (Some ''a1b2c3d4'') ''tt0096895'' None offline_world empty_state) =
     Inl (JsError ''TypeError'' ''Failed to fetch'')"
  by (simp add: getMovieDetails_miss getMovieDetails_try_def sample_key_valid trim_def is_space_def
      detailCacheKey_def getFromCache_def empty_state_def offline_world_def fetch_def
      SEARCH_TIMEOUT_def sent_def Let_def storageKey_def)

theorem failed_request_writes_nothing_witness:
  "fst (searchMovies (Some ''a1b2c3d4'') ''batman'' 1 None offline_world stale_state) =
     Inl (JsError ''TypeError'' ''Failed to fetch'') \<and>
   (memoryCache (snd (searchMovies (Some ''a1b2c3d4'') ''batman'' 1 None offline_world stale_state)) =
      memoryCache stale_state \<and>
    localStorage (snd (searchMovies (Some ''a1b2c3d4'') ''batman'' 1 None offline_world stale_state)) =
      localStorage stale_state \<or>
    memoryCache (snd (searchMovies (Some ''a1b2c3d4'') ''batman'' 1 None offline_world stale_state)) =
      memoryCache (snd (getFromCache (clock offline_world) (searchCacheKey ''batman'' 1) stale_state)) \<and>
    localStorage (snd (searchMovies (Some ''a1b2c3d4'') ''batman'' 1 None offline_world stale_state)) =
      localStorage (snd (getFromCache (clock offline_world) (searchCacheKey ''batman'' 1) stale_state))) \<and>
   fst (getMovieDetails (Some ''a1b2c3d4'') ''tt0096895'' None offline_world empty_state) =
     Inl (JsError ''TypeError'' ''Failed to fetch'') \<and>
   (memoryCache (snd (getMovieDetails (Some ''a1b2c3d4'') ''tt0096895'' None offline_world empty_state)) =
      memoryCache empty_state \<and>
    localStorage (snd (getMovieDetails (Some ''a1b2c3d4'') ''tt0096895'' None offline_world empty_state)) =
      localStorage empty_state \<or>
    memoryCache (snd (getMovieDetails (Some ''a1b2c3d4'') ''tt0096895'' None offline_world empty_state)) =
      memoryCache (snd (getFromCache (clock offline_world) (detailCacheKey ''tt0096895'') empty_state)) \<and>
    localStorage (snd (getMovieDetails (Some ''a1b2c3d4'') ''tt0096895'' None offline_world empty_state)) =
      localStorage (snd (getFromCache (clock offline_world) (detailCacheKey ''tt0096895'') empty_state)))"
  using offline_search_fails(1) offline_detail_fails
    failed_request_writes_nothing [where apiKey = "Some ''a1b2c3d4''" and searchTerm = "''batman''"
      and page = 1 and sg = None and w = offline_world and s = stale_state
      and e = "JsError ''TypeError'' ''Failed to fetch''" and imdbID = "''tt0096895''"
      and e' = "JsError ''TypeError'' ''Failed to fetch''"]
    failed_request_writes_nothing [where apiKey = "Some ''a1b2c3d4''" and searchTerm = "''batman''"
      and page = 1 and sg = None and w = offline_world and s = empty_state
      and e = "JsError ''TypeError'' ''Failed to fetch''" and imdbID = "''tt0096895''"
      and e' = "JsError ''TypeError'' ''Failed to fetch''"]
  by simp

text \<open>
  The claim as worded says that a failed request modifies neither tier. A search whose
  persistent entry has expired, made while the network is down, fails, and the expired
  entry is gone from persistent storage afterwards.
\<close>

theorem failed_request_writes_nothing_counterexample:
  "fst (searchMovies (Some ''a1b2c3d4'') ''batman'' 1 None offline_world stale_state) =
     Inl (JsError ''TypeError'' ''Failed to fetch'') \<and>
   localStorage stale_state =
     [(''omdb_search_batman_1'', Entry batman_page 0), (''theme'', Unparsable)] \<and>
   localStorage (snd (searchMovies (Some ''a1b2c3d4'') ''batman'' 1 None offline_world stale_state)) =
     [(''theme'', Unparsable)]"
proof -
  have "localStorage stale_state =
      [(''omdb_search_batman_1'', Entry batman_page 0), (''theme'', Unparsable)]"
    by (simp add: stale_state_def)
  with offline_search_fails show ?thesis by simp
qed

lemma fetch_latency:
  "fetch (w\<lparr>latency := l\<rparr>) (AbortSignal None) = fetch w (AbortSignal None)"
  by (simp add: fetch_def)

lemma searchMovies_try_latency:
  "map_sum id fst (searchMovies_try key (AbortSignal None) (w\<lparr>latency := l\<rparr>) s) =
   map_sum id fst (searchMovies_try key (AbortSignal None) w s)"
  by (simp add: searchMovies_try_def fetch_latency setCache_def setItem_def Let_def
      split: sum.splits prod.splits body.splits)

lemma getMovieDetails_try_latency:
  "map_sum id fst (getMovieDetails_try key (AbortSignal None) (w\<lparr>latency := l\<rparr>) s) =
   map_sum id fst (getMovieDetails_try key (AbortSignal None) w s)"
  by (simp add: getMovieDetails_try_def fetch_latency setCache_def setItem_def Let_def
      split: sum.splits prod.splits body.splits)

lemma searchMovies_fst:
  "fst (case r of Inr (data, s3) \<Rightarrow> (Inr data, s3)
        | Inl error \<Rightarrow> if name error = ''AbortError'' then (Inl (Error m), s2) else (Inl error, s2)) =
   (case map_sum id fst r of Inr data \<Rightarrow> Inr data
    | Inl error \<Rightarrow> if name error = ''AbortError'' then Inl (Error m) else Inl error)"
  by (simp split: sum.splits prod.splits)

lemma searchMovies_latency:
  "fst (searchMovies apiKey searchTerm page (Some (AbortSignal None)) (w\<lparr>latency := l\<rparr>) s) =
   fst (searchMovies apiKey searchTerm page (Some (AbortSignal None)) w s)"
proof (cases "isValidAPIKey apiKey \<and> trim searchTerm \<noteq> []")
  case False
  then show ?thesis
    by (cases "isValidAPIKey apiKey") (simp_all add: searchMovies_invalid_key searchMovies_blank)
next
  case True
  show ?thesis
  proof (cases "truthy (fst (getFromCache (clock w) (searchCacheKey searchTerm page) s))")
    case hit: True
    with True show ?thesis by (simp add: searchMovies_hit)
  next
    case miss: False
    with True show ?thesis
      by (simp add: searchMovies_miss Let_def searchMovies_fst searchMovies_try_latency)
  qed
qed

lemma getMovieDetails_latency:
  "fst (getMovieDetails apiKey imdbID (Some (AbortSignal None)) (w\<lparr>latency := l\<rparr>) s) =
   fst (getMovieDetails apiKey imdbID (Some (AbortSignal None)) w s)"
proof (cases "isValidAPIKey apiKey \<and> trim imdbID \<noteq> []")
  case False
  then show ?thesis
    by (cases "isValidAPIKey apiKey")
       (simp_all add: getMovieDetails_invalid_key getMovieDetails_blank)
next
  case True
  show ?thesis
  proof (cases "truthy (fst (getFromCache (clock w) (detailCacheKey imdbID) s))")
    case hit: True
    with True show ?thesis by (simp add: getMovieDetails_hit)
  next
    case miss: False
    with True show ?thesis
      by (simp add: getMovieDetails_miss Let_def searchMovies_fst getMovieDetails_try_latency)
  qed
qed

lemma AbortError_name: "name AbortError = ''AbortError''"
  by (simp add: AbortError_def)

lemma fetch_own_timer_fast:
  "latency w < SEARCH_TIMEOUT \<Longrightarrow>
   fetch w (AbortSignal (Some SEARCH_TIMEOUT)) = fetch w (AbortSignal None)"
  by (simp add: fetch_def Let_def)

lemma searchMovies_fast:
  assumes "latency w < SEARCH_TIMEOUT"
  shows "searchMovies apiKey searchTerm page None w s =
         searchMovies apiKey searchTerm page (Some (AbortSignal None)) w s"
proof (cases "isValidAPIKey apiKey \<and> trim searchTerm \<noteq> []")
  case False
  then show ?thesis
    by (cases "isValidAPIKey apiKey") (simp_all add: searchMovies_invalid_key searchMovies_blank)
next
  case True
  show ?thesis
  proof (cases "truthy (fst (getFromCache (clock w) (searchCacheKey searchTerm page) s))")
    case hit: True
    with True show ?thesis by (simp add: searchMovies_hit)
  next
    case miss: False
    with True assms show ?thesis
      by (simp add: searchMovies_miss searchMovies_try_def fetch_own_timer_fast)
  qed
qed

lemma getMovieDetails_fast:
  assumes "latency w < SEARCH_TIMEOUT"
  shows "getMovieDetails apiKey imdbID None w s =
         getMovieDetails apiKey imdbID (Some (AbortSignal None)) w s"
proof (cases "isValidAPIKey apiKey \<and> trim imdbID \<noteq> []")
  case False
  then show ?thesis
    by (cases "isValidAPIKey apiKey")
       (simp_all add: getMovieDetails_invalid_key getMovieDetails_blank)
next
  case True
  show ?thesis
  proof (cases "truthy (fst (getFromCache (clock w) (detailCacheKey imdbID) s))")
    case hit: True
    with True show ?thesis by (simp add: getMovieDetails_hit)
  next
    case miss: False
    with True assms show ?thesis
      by (simp add: getMovieDetails_miss getMovieDetails_try_def fetch_own_timer_fast)
  qed
qed

text \<open>
  Claim C9, as the code has it. The timer aborts only the controller that the function
  creates for itself, and it creates one only when the caller passed no signal. On a
  cache miss without a caller's signal, a request that is still pending after the 8000
  milliseconds ends as cancelled, for search and detail alike. With a caller's signal
  that is never aborted the outcome is the same whatever the latency is: the timer has
  no effect. A call that is answered before the 8000 milliseconds are over runs as if
  there were no timer.
\<close>

theorem timeout_only_without_caller_signal:
  "(isValidAPIKey apiKey \<and> trim searchTerm \<noteq> [] \<and>
    \<not> truthy (fst (getFromCache (clock w) (searchCacheKey searchTerm page) s)) \<and>
    SEARCH_TIMEOUT < latency w \<longrightarrow>
      fst (searchMovies apiKey searchTerm page None w s) = Inl (Error msg_search_cancelled)) \<and>
   (isValidAPIKey apiKey \<and> trim imdbID \<noteq> [] \<and>
    \<not> truthy (fst (getFromCache (clock w) (detailCacheKey imdbID) s)) \<and>
    SEARCH_TIMEOUT < latency w \<longrightarrow>
      fst (getMovieDetails apiKey imdbID None w s) = Inl (Error msg_request_cancelled)) \<and>
   fst (searchMovies apiKey searchTerm page (Some (AbortSignal None)) (w\<lparr>latency := l\<rparr>) s) =
     fst (searchMovies apiKey searchTerm page (Some (AbortSignal None)) w s) \<and>
   fst (getMovieDetails apiKey imdbID (Some (AbortSignal None)) (w\<lparr>latency := l\<rparr>) s) =
     fst (getMovieDetails apiKey imdbID (Some (AbortSignal None)) w s) \<and>
   (latency w < SEARCH_TIMEOUT \<longrightarrow>
      searchMovies apiKey searchTerm page None w s =
        searchMovies apiKey searchTerm page (Some (AbortSignal None)) w s \<and>
      getMovieDetails apiKey imdbID None w s =
        getMovieDetails apiKey imdbID (Some (AbortSignal None)) w s)"
proof -
  have search: "isValidAPIKey apiKey \<and> trim searchTerm \<noteq> [] \<and>
      \<not> truthy (fst (getFromCache (clock w) (searchCacheKey searchTerm page) s)) \<and>
      SEARCH_TIMEOUT < latency w \<Longrightarrow>
      fst (searchMovies apiKey searchTerm page None w s) = Inl (Error msg_search_cancelled)"
    by (simp add: searchMovies_miss Let_def AbortError_name
        searchMovies_try_aborted [where t = SEARCH_TIMEOUT])
  have detail: "isValidAPIKey apiKey \<and> trim imdbID \<noteq> [] \<and>
      \<not> truthy (fst (getFromCache (clock w) (detailCacheKey imdbID) s)) \<and>
      SEARCH_TIMEOUT < latency w \<Longrightarrow>
      fst (getMovieDetails apiKey imdbID None w s) = Inl (Error msg_request_cancelled)"
    by (simp add: getMovieDetails_miss Let_def AbortError_name
        getMovieDetails_try_aborted [where t = SEARCH_TIMEOUT])
  from search detail show ?thesis
    by (simp add: searchMovies_latency getMovieDetails_latency searchMovies_fast
        getMovieDetails_fast)
qed

lemma slow_search_with_signal:
  "fst (searchMovies (Some ''a1b2c3d4'') ''batman'' 1 (Some (AbortSignal None)) slow_world
          empty_state) = Inr batman_page"
  by (simp add: searchMovies_miss searchMovies_try_def sample_key_valid trim_batman
      searchCacheKey_batman getFromCache_def empty_state_def slow_world_def fetch_def
      response_ok_def validateAPIResponse_def batman_page_def truthy_opt_def
      setCache_def setItem_def sent_def Let_def)

lemma empty_state_misses: "\<not> truthy (fst (getFromCache now k empty_state))"
  by (simp add: getFromCache_def empty_state_def)

theorem timeout_only_without_caller_signal_witness:
  "isValidAPIKey (Some ''a1b2c3d4'') \<and> trim ''batman'' \<noteq> [] \<and>
   \<not> truthy (fst (getFromCache (clock slow_world) (searchCacheKey ''batman'' 1) empty_state)) \<and>
   SEARCH_TIMEOUT < latency slow_world \<and>
   fst (searchMovies (Some ''a1b2c3d4'') ''batman'' 1 None slow_world empty_state) =
     Inl (Error msg_search_cancelled) \<and>
   trim ''tt0096895'' \<noteq> [] \<and>
   \<not> truthy (fst (getFromCache (clock slow_world) (detailCacheKey ''tt0096895'') empty_state)) \<and>
   fst (getMovieDetails (Some ''a1b2c3d4'') ''tt0096895'' None slow_world empty_state) =
     Inl (Error msg_request_cancelled) \<and>
   fst (searchMovies (Some ''a1b2c3d4'') ''batman'' 1 (Some (AbortSignal None))
          (slow_world\<lparr>latency := 120\<rparr>) empty_state) = Inr batman_page \<and>
   latency fast_world < SEARCH_TIMEOUT \<and>
   fst (searchMovies (Some ''a1b2c3d4'') ''Batman'' 1 None fast_world empty_state) =
     Inr batman_page \<and>
   fst (searchMovies (Some ''a1b2c3d4'') ''Batman'' 1 (Some (AbortSignal None)) fast_world
          empty_state) = Inr batman_page"
proof -
  have late: "SEARCH_TIMEOUT < latency slow_world"
    by (simp add: SEARCH_TIMEOUT_def slow_world_def)
  have ident: "trim ''tt0096895'' \<noteq> []"
    by (simp add: trim_def is_space_def)
  have soon: "latency fast_world < SEARCH_TIMEOUT"
    by (simp add: SEARCH_TIMEOUT_def fast_world_def)
  show ?thesis
    using sample_key_valid late soon ident empty_state_misses slow_search_with_signal
      first_search_succeeds
      timeout_only_without_caller_signal [where apiKey = "Some ''a1b2c3d4''"
        and searchTerm = "''batman''" and page = 1 and w = slow_world and s = empty_state
        and imdbID = "''tt0096895''" and l = 120]
      timeout_only_without_caller_signal [where apiKey = "Some ''a1b2c3d4''"
        and searchTerm = "''Batman''" and page = 1 and w = fast_world and s = empty_state
        and imdbID = "''tt0096895''" and l = 120]
    by (simp add: trim_batman)
qed

text \<open>
  The claim as worded holds the timeout to apply whether or not the caller passed a
  signal. A search made with a caller's signal on a network that needs twenty seconds
  is not aborted after eight: it returns the data.
\<close>

theorem timeout_only_without_caller_signal_counterexample:
  "\<not> truthy (fst (getFromCache (clock slow_world) (searchCacheKey ''batman'' 1) empty_state)) \<and>
   SEARCH_TIMEOUT < latency slow_world \<and>
   fst (searchMovies (Some ''a1b2c3d4'') ''batman'' 1 (Some (AbortSignal None)) slow_world
          empty_state) = Inr batman_page"
proof -
  have "SEARCH_TIMEOUT < latency slow_world"
    by (simp add: SEARCH_TIMEOUT_def slow_world_def)
  with empty_state_misses slow_search_with_signal show ?thesis by simp
qed

lemma trim_trim: "trim (trim s) = trim s"
proof (cases "trim s = []")
  case True
  have "trim [] = []" by (simp add: trim_def)
  with True show ?thesis by simp
next
  case False
  let ?d = "dropWhile is_space s"
  let ?e = "dropWhile is_space (rev ?d)"
  have t: "trim s = rev ?e" by (simp add: trim_def)
  from False t have e: "?e \<noteq> []" by simp
  have d: "?d \<noteq> []"
  proof
    assume "?d = []"
    then have "?e = []" by (simp only: rev.simps dropWhile.simps)
    with e show False by blast
  qed
  have "?d = rev (takeWhile is_space (rev ?d) @ ?e)"
    by (simp only: takeWhile_dropWhile_id rev_rev_ident)
  then have split: "?d = rev ?e @ rev (takeWhile is_space (rev ?d))"
    by (simp only: rev_append)
  from e have "hd (rev ?e @ rev (takeWhile is_space (rev ?d))) = hd (rev ?e)" by simp
  with split have "hd ?d = hd (rev ?e)" by simp
  moreover from d have "\<not> is_space (hd ?d)" by (rule hd_dropWhile)
  ultimately have "\<not> is_space (hd (rev ?e))" by simp
  then have front: "dropWhile is_space (rev ?e) = rev ?e"
    by (simp add: dropWhile_eq_self_iff)
  have "trim (rev ?e) = rev (dropWhile is_space (rev (dropWhile is_space (rev ?e))))"
    by (simp add: trim_def)
  also have "\<dots> = rev (dropWhile is_space ?e)" by (simp add: front)
  also have "\<dots> = rev ?e" by simp
  finally show ?thesis by (simp add: t)
qed

lemma show_result_api: "api (snd (show_result searchTerm result a)) = api a"
  by (simp add: show_result_def Let_def split: option.splits)

lemma show_result_page: "currentPage (snd (show_result searchTerm result a)) = currentPage a"
  by (simp add: show_result_def Let_def split: option.splits)

lemma performSearch_catch_frame:
  "api (performSearch_catch error a) = api a"
  "currentPage (performSearch_catch error a) = currentPage a"
  by (simp_all add: performSearch_catch_def)

lemma settle_frame:
  "api (case show_result searchTerm result a of
          (None, a') \<Rightarrow> a' | (Some error, a') \<Rightarrow> performSearch_catch error a') = api a"
  "currentPage (case show_result searchTerm result a of
          (None, a') \<Rightarrow> a' | (Some error, a') \<Rightarrow> performSearch_catch error a') = currentPage a"
proof -
  obtain thrown a' where sr: "show_result searchTerm result a = (thrown, a')"
    by (cases "show_result searchTerm result a")
  have "api a' = api a" "currentPage a' = currentPage a"
    using show_result_api [of searchTerm result a] show_result_page [of searchTerm result a] sr
    by simp_all
  then show
    "api (case show_result searchTerm result a of
          (None, a') \<Rightarrow> a' | (Some error, a') \<Rightarrow> performSearch_catch error a') = api a"
    "currentPage (case show_result searchTerm result a of
          (None, a') \<Rightarrow> a' | (Some error, a') \<Rightarrow> performSearch_catch error a') = currentPage a"
    by (cases thrown; simp add: sr performSearch_catch_frame)+
qed

lemma performSearch_api_blank:
  "trim (searchInput a) = [] \<Longrightarrow> api (performSearch apiKey superseded w a) = api a"
  by (simp add: performSearch_def)

lemma performSearch_api:
  assumes "trim (searchInput a) \<noteq> []"
  shows "api (performSearch apiKey superseded w a) =
     snd (searchMovies apiKey (trim (searchInput a)) 1 (Some (AbortSignal superseded)) w (api a))"
proof -
  obtain r st where sm: "searchMovies apiKey (trim (searchInput a)) 1
      (Some (AbortSignal superseded)) w (api a) = (r, st)"
    by (cases "searchMovies apiKey (trim (searchInput a)) 1
      (Some (AbortSignal superseded)) w (api a)")
  show ?thesis
    using assms sm
    by (cases r) (simp_all add: performSearch_def Let_def settle_frame performSearch_catch_frame)
qed

lemma performSearch_page:
  assumes "trim (searchInput a) \<noteq> []"
  shows "currentPage (performSearch apiKey superseded w a) = 1"
proof -
  obtain r st where sm: "searchMovies apiKey (trim (searchInput a)) 1
      (Some (AbortSignal superseded)) w (api a) = (r, st)"
    by (cases "searchMovies apiKey (trim (searchInput a)) 1
      (Some (AbortSignal superseded)) w (api a)")
  show ?thesis
    using assms sm
    by (cases r) (simp_all add: performSearch_def Let_def settle_frame performSearch_catch_frame)
qed

lemma renderPagination_targets:
  "n \<in> set (renderPagination page (page * 10 < totalCount)) \<Longrightarrow> 1 \<le> page \<Longrightarrow>
   (page - 1) * 10 < totalCount \<Longrightarrow> 1 \<le> n \<and> (n - 1) * 10 < totalCount"
  by (auto simp: renderPagination_def split: if_splits)

lemma searchMovies_requests:
  "requests (snd (searchMovies apiKey searchTerm page sg w s)) = requests s \<or>
   requests (snd (searchMovies apiKey searchTerm page sg w s)) =
     requests s @ [SearchRequest (url_key apiKey) (trim searchTerm) page]"
proof (cases "isValidAPIKey apiKey \<and> trim searchTerm \<noteq> []")
  case False
  then show ?thesis
    by (cases "isValidAPIKey apiKey") (simp_all add: searchMovies_invalid_key searchMovies_blank)
next
  case True
  show ?thesis
  proof (cases "truthy (fst (getFromCache (clock w) (searchCacheKey searchTerm page) s))")
    case hit: True
    with True show ?thesis by (simp add: searchMovies_hit getFromCache_requests)
  next
    case miss: False
    with True show ?thesis by (simp add: searchMovies_requests_miss)
  qed
qed

text \<open>
  Claim C3, on the code. \<open>handlePageChange\<close> stores \<open>n\<close> in \<^verbatim>\<open>appState.currentPage\<close>
  and calls \<open>performSearch\<close>, which sets \<^verbatim>\<open>appState.currentPage\<close> back to 1 before it
  calls \<open>searchMovies\<close>. So for every \<open>n\<close> the only request that can leave is the one
  for page 1 of the text of the search box, and when that text is not blank the page
  recorded afterwards is 1: page \<open>n\<close> is never requested.
\<close>

theorem page_change_searches_page_one:
  "(requests (api (handlePageChange apiKey superseded w n a)) = requests (api a) \<or>
    requests (api (handlePageChange apiKey superseded w n a)) =
      requests (api a) @ [SearchRequest (url_key apiKey) (trim (searchInput a)) 1]) \<and>
   (trim (searchInput a) \<noteq> [] \<longrightarrow>
      currentPage (handlePageChange apiKey superseded w n a) = 1 \<and>
      api (handlePageChange apiKey superseded w n a) =
        snd (searchMovies apiKey (trim (searchInput a)) 1 (Some (AbortSignal superseded)) w
               (api a)))"
proof (cases "trim (searchInput a) = []")
  case True
  then show ?thesis
    by (simp add: handlePageChange_def performSearch_api_blank)
next
  case False
  have same: "api (handlePageChange apiKey superseded w n a) =
      snd (searchMovies apiKey (trim (searchInput a)) 1 (Some (AbortSignal superseded)) w (api a))"
    using False by (simp add: handlePageChange_def performSearch_api)
  have one: "currentPage (handlePageChange apiKey superseded w n a) = 1"
    using False by (simp add: handlePageChange_def performSearch_page)
  have "requests (snd (searchMovies apiKey (trim (searchInput a)) 1
            (Some (AbortSignal superseded)) w (api a))) = requests (api a) \<or>
        requests (snd (searchMovies apiKey (trim (searchInput a)) 1
            (Some (AbortSignal superseded)) w (api a))) =
          requests (api a) @ [SearchRequest (url_key apiKey) (trim (trim (searchInput a))) 1]"
    by (rule searchMovies_requests)
  with same one show ?thesis by (simp add: trim_trim)
qed

lemma parse_25: "parseInt (Some (JStr ''25'')) = Some 25"
  by (simp add: parseInt_def parseInt_text_def is_space_def is_digit_def digits_of_base_def
      lower_char_def capital_letters_def small_letters_def parse_digits_def digit_value_def
      Let_def)

lemma first_page_search:
  "searchMovies (Some ''a1b2c3d4'') ''batman'' 1 (Some (AbortSignal None)) first_page_world
     empty_state =
   (Inr batman_first_page,
    \<lparr>memoryCache = [''search_batman_1'' \<mapsto> batman_first_page],
     localStorage = [(''omdb_search_batman_1'', Entry batman_first_page 1120)],
     console = [], requests = [SearchRequest ''a1b2c3d4'' ''batman'' 1]\<rparr>)"
  by (simp add: searchMovies_miss searchMovies_try_def sample_key_valid trim_batman
      searchCacheKey_batman getFromCache_def empty_state_def first_page_world_def fetch_def
      response_ok_def validateAPIResponse_def batman_first_page_def truthy_opt_def
      setCache_def setItem_def sent_def Let_def url_key_def storageKey_def)

lemma searched_app_fields:
  "searchInput searched_app = ''batman''"
  "currentPage searched_app = 1"
  "totalResults searched_app = 25"
  "requests (api searched_app) = [SearchRequest ''a1b2c3d4'' ''batman'' 1]"
  "memoryCache (api searched_app) ''search_batman_1'' = Some batman_first_page"
  by (simp_all add: searched_app_def performSearch_def fresh_app_def trim_batman Let_def
      first_page_search show_result_def renderMovieGrid_def parse_25
      batman_first_page_def truthy_opt_def)


lemma truthy_first_page: "truthy batman_first_page"
  by (simp add: batman_first_page_def)

lemma second_click_hits_cache:
  "snd (searchMovies (Some ''a1b2c3d4'') ''batman'' 1 (Some (AbortSignal None)) second_page_world
          (api searched_app)) = api searched_app"
proof -
  have "getFromCache (clock second_page_world) (searchCacheKey ''batman'' 1) (api searched_app) =
      (batman_first_page, api searched_app)"
    by (simp add: searchCacheKey_batman getFromCache_memory_hit searched_app_fields)
  then show ?thesis
    by (simp add: searchMovies_hit sample_key_valid trim_batman truthy_first_page)
qed

text \<open>
  After a search that found 25 films the page shows the button for page 2, which is
  within the bounds. Pressing it sends nothing (page 1 is in the cache) and leaves the
  application on page 1.
\<close>

theorem page_change_searches_page_one_witness:
  "trim (searchInput searched_app) \<noteq> [] \<and>
   totalResults searched_app = 25 \<and>
   2 \<in> set (renderPagination (currentPage searched_app)
              (currentPage searched_app * 10 < totalResults searched_app)) \<and>
   (2 - 1) * 10 < totalResults searched_app \<and>
   currentPage (handlePageChange (Some ''a1b2c3d4'') None second_page_world 2 searched_app) = 1 \<and>
   requests (api (handlePageChange (Some ''a1b2c3d4'') None second_page_world 2 searched_app)) =
     [SearchRequest ''a1b2c3d4'' ''batman'' 1] \<and>
   requests (api searched_app) = [SearchRequest ''a1b2c3d4'' ''batman'' 1]"
  using second_click_hits_cache
    page_change_searches_page_one [where apiKey = "Some ''a1b2c3d4''" and superseded = None
      and w = second_page_world and n = 2 and a = searched_app]
  by (simp add: searched_app_fields trim_batman renderPagination_def)

lemma batman_app_fields:
  "searchInput batman_app = ''batman''" "api batman_app = empty_state"
  "events batman_app = []" "abortController batman_app = False"
  "totalResults batman_app = 5"
  by (simp_all add: batman_app_def)

lemma cancelled_message: "getErrorMessage (Error msg_search_cancelled) = msg_search_cancelled"
  by (simp add: getErrorMessage_def Error_def msg_search_cancelled_def startsWith_def)

lemma searchMovies_cancelled:
  "isValidAPIKey apiKey \<Longrightarrow> trim searchTerm \<noteq> [] \<Longrightarrow>
   \<not> truthy (fst (getFromCache (clock w) (searchCacheKey searchTerm page) s)) \<Longrightarrow>
   t \<le> latency w \<Longrightarrow>
   fst (searchMovies apiKey searchTerm page (Some (AbortSignal (Some t))) w s) =
     Inl (Error msg_search_cancelled)"
  by (simp add: searchMovies_miss Let_def AbortError_name searchMovies_try_aborted [where t = t])

text \<open>
  Claim C1, on the code. A search whose signal is aborted before the network answers is
  delivered by \<open>searchMovies\<close> as a plain \<^verbatim>\<open>Error\<close> with the message
  \<^verbatim>\<open>Busca cancelada.\<close>; its name is not \<^verbatim>\<open>AbortError\<close>, the only mark by which
  \<open>performSearch\<close> and \<open>getErrorMessage\<close> tell a cancellation, so \<open>performSearch\<close>
  renders it as an error.
\<close>

theorem cancelled_search_is_rendered_as_error:
  "isValidAPIKey apiKey \<and> trim (searchInput a) \<noteq> [] \<and>
   \<not> truthy (fst (getFromCache (clock w) (searchCacheKey (trim (searchInput a)) 1) (api a))) \<and>
   t < latency w \<longrightarrow>
     fst (searchMovies apiKey (trim (searchInput a)) 1 (Some (AbortSignal (Some t))) w (api a)) =
       Inl (Error msg_search_cancelled) \<and>
     name (Error msg_search_cancelled) = ''Error'' \<and>
     events (performSearch apiKey (Some t) w a) =
       events a @ (if abortController a then [AbortPending] else []) @
       [RenderLoadingState SKELETON_CARDS_COUNT, AriaLivePolite, SetResultsCount msg_loading,
        RenderErrorState msg_search_cancelled, SetResultsCount msg_search_error]"
proof
  assume h: "isValidAPIKey apiKey \<and> trim (searchInput a) \<noteq> [] \<and>
    \<not> truthy (fst (getFromCache (clock w) (searchCacheKey (trim (searchInput a)) 1) (api a))) \<and>
    t < latency w"
  then have nonblank: "trim (trim (searchInput a)) \<noteq> []" by (simp add: trim_trim)
  from h nonblank have delivered:
    "fst (searchMovies apiKey (trim (searchInput a)) 1 (Some (AbortSignal (Some t))) w (api a)) =
       Inl (Error msg_search_cancelled)"
    by (intro searchMovies_cancelled) simp_all
  have plain: "name (Error msg_search_cancelled) = ''Error''"
    by (simp add: Error_def)
  from h delivered have shown: "events (performSearch apiKey (Some t) w a) =
      events a @ (if abortController a then [AbortPending] else []) @
      [RenderLoadingState SKELETON_CARDS_COUNT, AriaLivePolite, SetResultsCount msg_loading,
       RenderErrorState msg_search_cancelled, SetResultsCount msg_search_error]"
    by (simp add: performSearch_def performSearch_catch_def Let_def case_prod_beta plain
        cancelled_message)
  from delivered plain shown show
    "fst (searchMovies apiKey (trim (searchInput a)) 1 (Some (AbortSignal (Some t))) w (api a)) =
       Inl (Error msg_search_cancelled) \<and>
     name (Error msg_search_cancelled) = ''Error'' \<and>
     events (performSearch apiKey (Some t) w a) =
       events a @ (if abortController a then [AbortPending] else []) @
       [RenderLoadingState SKELETON_CARDS_COUNT, AriaLivePolite, SetResultsCount msg_loading,
        RenderErrorState msg_search_cancelled, SetResultsCount msg_search_error]"
    by simp
qed

lemma refused_search:
  "fst (searchMovies (Some ''a1b2c3d4'') ''batman'' 1 (Some (AbortSignal None)) refusing_world
          empty_state) = Inl (JsError ''Error'' ''Busca cancelada.'')"
  by (simp add: searchMovies_miss searchMovies_try_def sample_key_valid trim_batman
      searchCacheKey_batman getFromCache_def empty_state_def refusing_world_def fetch_def
      response_ok_def validateAPIResponse_def Error_def sent_def Let_def)

text \<open>
  A search superseded 100 milliseconds after it started, and a reply in which OMDb
  itself reports the failure \<^verbatim>\<open>Busca cancelada.\<close>: the two errors are the same value.
\<close>

theorem cancelled_search_is_rendered_as_error_witness:
  "isValidAPIKey (Some ''a1b2c3d4'') \<and> trim (searchInput batman_app) \<noteq> [] \<and>
   \<not> truthy (fst (getFromCache (clock slow_world)
        (searchCacheKey (trim (searchInput batman_app)) 1) (api batman_app))) \<and>
   100 < latency slow_world \<and>
   fst (searchMovies (Some ''a1b2c3d4'') ''batman'' 1 (Some (AbortSignal (Some 100))) slow_world
          empty_state) = Inl (JsError ''Error'' ''Busca cancelada.'') \<and>
   events (performSearch (Some ''a1b2c3d4'') (Some 100) slow_world batman_app) =
     [RenderLoadingState 6, AriaLivePolite, SetResultsCount ''Carregando resultados...'',
      RenderErrorState ''Busca cancelada.'', SetResultsCount ''Erro na busca''] \<and>
   fst (searchMovies (Some ''a1b2c3d4'') ''batman'' 1 (Some (AbortSignal None)) refusing_world
          empty_state) = Inl (JsError ''Error'' ''Busca cancelada.'')"
proof -
  have early: "100 < latency slow_world"
    by (simp add: slow_world_def)
  show ?thesis
    using early sample_key_valid refused_search
      cancelled_search_is_rendered_as_error [where apiKey = "Some ''a1b2c3d4''"
        and a = batman_app and w = slow_world and t = 100]
    by (simp add: batman_app_fields trim_batman empty_state_misses Error_def
        msg_search_cancelled_def msg_loading_def msg_search_error_def SKELETON_CARDS_COUNT_def)
qed

end
